theory Spec2Isabelle
  imports Complex_Main "HOL-Library.Log_Nat"
begin

section \<open>Python values, strings and exceptions\<close>

text \<open>
  The embedding follows the Python sources module by module: \<open>ml/validator.py\<close>,
  \<open>ml/parser.py\<close>, \<open>ml/model.py\<close>, \<open>ml/explainer.py\<close> and the fusion step of
  \<open>worker/tasks.py\<close>.

  A Python \<open>str\<close> is a \<open>string\<close> whose characters are code points below 256; every
  literal of the sources is in that range. In that range the regular expression class
  \<open>\d\<close> is exactly the ten ASCII digits, and \<open>int\<close> of a one-character string succeeds
  exactly on them. A Python \<open>int\<close> is an \<open>int\<close>. A Python \<open>float\<close> is the rational
  number that the binary64 value stands for (no NaN, no infinities, no overflow): \<open>f64\<close>
  rounds a rational to the nearest binary64 value, ties to the even significand, so
  \<open>f64 0.85\<close> is the float literal \<open>0.85\<close> and \<open>f64 (a * b)\<close> is the float product of two
  floats. Comparisons are exact, between floats and between an int and a float.

  An exception is a value that carries the text of \<open>str(e)\<close>; a function that can raise
  returns \<open>exn + 'a\<close>, \<open>Inl\<close> the exception.
\<close>

datatype exn = TypeError string | ValueError string | IndexError string

fun str_exn :: "exn \<Rightarrow> string" where
  "str_exn (TypeError m) = m"
| "str_exn (ValueError m) = m"
| "str_exn (IndexError m) = m"

definition bind :: "exn + 'a \<Rightarrow> ('a \<Rightarrow> exn + 'b) \<Rightarrow> exn + 'b" where
  "bind r f = (case r of Inl e \<Rightarrow> Inl e | Inr x \<Rightarrow> f x)"

text \<open>The values a field dictionary holds: \<open>None\<close>, a \<open>str\<close> or a \<open>float\<close>.\<close>

datatype pyval = PNone | PStr string | PFloat rat

type_synonym dict = "string \<rightharpoonup> pyval"

definition dget :: "dict \<Rightarrow> string \<Rightarrow> pyval" where
  \<comment> \<open>\<open>d.get(k)\<close>: \<open>None\<close> for a missing key\<close>
  "dget d k = (case d k of None \<Rightarrow> PNone | Some v \<Rightarrow> v)"

fun truthy :: "pyval \<Rightarrow> bool" where
  "truthy PNone = False"
| "truthy (PStr s) = (s \<noteq> [])"
| "truthy (PFloat x) = (x \<noteq> 0)"

definition pow2 :: "int \<Rightarrow> rat" where
  "pow2 k = (if k \<ge> 0 then 2 ^ nat k else 1 / 2 ^ nat (- k))"

definition expoente :: "rat \<Rightarrow> int" where
  \<comment> \<open>for \<open>x > 0\<close>, the \<open>e\<close> with \<open>2 ^ e \<le> x < 2 ^ (e + 1)\<close>; \<open>bitlen n\<close> is the number of bits of \<open>n\<close>\<close>
  "expoente x =
     (let k = bitlen (fst (quotient_of x)) - bitlen (snd (quotient_of x))
      in if pow2 k \<le> x then k else k - 1)"

definition arredonda_par :: "rat \<Rightarrow> int" where
  \<comment> \<open>the nearest integer, a tie to the even one\<close>
  "arredonda_par y =
     (let f = \<lfloor>y\<rfloor>; r = y - of_int f
      in if r < 1 / 2 then f else if r > 1 / 2 then f + 1 else if even f then f else f + 1)"

definition f64 :: "rat \<Rightarrow> rat" where
  \<comment> \<open>53 bits of significand; below \<open>2 ^ (- 1022)\<close> the spacing stays \<open>2 ^ (- 1074)\<close>\<close>
  "f64 x =
     (if x = 0 then 0
      else let e = max (expoente \<bar>x\<bar>) (- 1022);
               ulp = pow2 (e - 52)
           in sgn x * of_int (arredonda_par (\<bar>x\<bar> / ulp)) * ulp)"

text \<open>
  What the interpreter and the standard library decide, and the repository does not:
  the text of a TypeError raised on an operand of the wrong type, \<open>datetime.strptime\<close>,
  \<open>datetime.now\<close>, \<open>strftime\<close>, the formatting of a float, \<open>float\<close> of a string and
  \<open>re.search\<close>. Instants are microseconds on the time line of naive datetimes.
\<close>

record runtime =
  type_error_msg :: "string \<Rightarrow> pyval \<Rightarrow> string"
  strptime :: "string \<Rightarrow> string \<Rightarrow> exn + int"
  now :: int
  strftime :: "int \<Rightarrow> string \<Rightarrow> string"
  format_float :: "rat \<Rightarrow> string \<Rightarrow> string"
  float_of_str :: "string \<Rightarrow> exn + rat"
  re_search :: "string \<Rightarrow> bool \<Rightarrow> string \<Rightarrow> (nat \<Rightarrow> string) option"

abbreviation a_acute :: string where "a_acute \<equiv> [CHR 0xE1]"
abbreviation a_grave :: string where "a_grave \<equiv> [CHR 0xE0]"
abbreviation a_tilde :: string where "a_tilde \<equiv> [CHR 0xE3]"
abbreviation c_cedil :: string where "c_cedil \<equiv> [CHR 0xE7]"
abbreviation e_acute :: string where "e_acute \<equiv> [CHR 0xE9]"
abbreviation e_circ :: string where "e_circ \<equiv> [CHR 0xEA]"
abbreviation i_acute :: string where "i_acute \<equiv> [CHR 0xED]"
abbreviation o_acute :: string where "o_acute \<equiv> [CHR 0xF3]"
abbreviation o_circ :: string where "o_circ \<equiv> [CHR 0xF4]"
abbreviation o_tilde :: string where "o_tilde \<equiv> [CHR 0xF5]"
abbreviation u_acute :: string where "u_acute \<equiv> [CHR 0xFA]"
abbreviation A_acute :: string where "A_acute \<equiv> [CHR 0xC1]"
abbreviation A_tilde :: string where "A_tilde \<equiv> [CHR 0xC3]"
abbreviation E_acute :: string where "E_acute \<equiv> [CHR 0xC9]"
abbreviation E_circ :: string where "E_circ \<equiv> [CHR 0xCA]"
abbreviation apostrophe :: string where "apostrophe \<equiv> [CHR 0x27]"
abbreviation backslash :: string where "backslash \<equiv> [CHR 0x5C]"

definition is_digit :: "char \<Rightarrow> bool" where
  "is_digit c = (48 \<le> (of_char c :: nat) \<and> (of_char c :: nat) \<le> 57)"

definition py_int_char :: "char \<Rightarrow> exn + int" where
  \<comment> \<open>\<open>int(s[i])\<close> on a one-character string\<close>
  "py_int_char c =
     (if is_digit c then Inr (int (of_char c) - 48)
      else Inl (ValueError (''invalid literal for int() with base 10: ''
                              @ apostrophe @ [c] @ apostrophe)))"

definition int_at :: "string \<Rightarrow> nat \<Rightarrow> exn + int" where
  \<comment> \<open>\<open>int(s[i])\<close>\<close>
  "int_at s i =
     (if i < length s then py_int_char (s ! i)
      else Inl (IndexError ''string index out of range''))"

function str_nat :: "nat \<Rightarrow> string" where
  "str_nat n =
     (if n < 10 then [char_of (48 + n)]
      else str_nat (n div 10) @ [char_of (48 + n mod 10)])"
  by pat_completeness auto
termination
  by (relation "measure id") auto

definition str_int :: "int \<Rightarrow> string" where
  \<comment> \<open>\<open>str(n)\<close> of an int\<close>
  "str_int i = (if i < 0 then CHR ''-'' # str_nat (nat (- i)) else str_nat (nat i))"

definition py_str :: "runtime \<Rightarrow> pyval \<Rightarrow> string" where
  \<comment> \<open>what an f-string puts for \<open>{v}\<close>\<close>
  "py_str rt v =
     (case v of PNone \<Rightarrow> ''None'' | PStr s \<Rightarrow> s | PFloat x \<Rightarrow> format_float rt x '''')"

definition slice :: "nat \<Rightarrow> nat \<Rightarrow> string \<Rightarrow> string" where
  \<comment> \<open>\<open>s[a:b]\<close>\<close>
  "slice a b s = take (b - a) (drop a s)"

definition idx :: "string \<Rightarrow> nat \<Rightarrow> exn + string" where
  \<comment> \<open>\<open>s[i]\<close>, a one-character string\<close>
  "idx s i = (if i < length s then Inr [s ! i] else Inl (IndexError ''string index out of range''))"

definition re_sub_nao_digitos :: "runtime \<Rightarrow> pyval \<Rightarrow> exn + string" where
  \<comment> \<open>\<open>re.sub(r'[^\d]', '', v)\<close>\<close>
  "re_sub_nao_digitos rt v =
     (case v of PStr s \<Rightarrow> Inr (filter is_digit s)
      | _ \<Rightarrow> Inl (TypeError (type_error_msg rt ''re.sub'' v)))"

fun to_lower :: "char \<Rightarrow> char" where
  "to_lower c =
     (let n = (of_char c :: nat)
      in if (65 \<le> n \<and> n \<le> 90) \<or> (192 \<le> n \<and> n \<le> 222 \<and> n \<noteq> 215) then char_of (n + 32) else c)"

definition lower :: "string \<Rightarrow> string" where
  \<comment> \<open>\<open>s.lower()\<close>\<close>
  "lower s = map to_lower s"

fun starts_with :: "string \<Rightarrow> string \<Rightarrow> bool" where
  "starts_with [] s = True"
| "starts_with (p # ps) [] = False"
| "starts_with (p # ps) (c # cs) = (p = c \<and> starts_with ps cs)"

fun py_in :: "string \<Rightarrow> string \<Rightarrow> bool" where
  \<comment> \<open>\<open>p in s\<close> on strings\<close>
  "py_in p [] = (p = [])"
| "py_in p (c # cs) = (starts_with p (c # cs) \<or> py_in p cs)"

section \<open>ml/validator.py\<close>

record resultado =
  valido :: bool
  erros :: "string list"

record validacao = resultado +
  detalhes :: "string \<rightharpoonup> resultado"

subsection \<open>calcular_dv_modulo10\<close>

fun modulo10_loop :: "string \<Rightarrow> int \<Rightarrow> int \<Rightarrow> exn + int" where
  \<comment> \<open>the loop over \<open>sequencia\<close> from right to left: the argument is the reversed sequence\<close>
  "modulo10_loop [] soma multiplicador = Inr soma"
| "modulo10_loop (c # cs) soma multiplicador =
     bind (py_int_char c) (\<lambda>d.
       let resultado = d * multiplicador;
           resultado = (if resultado > 9 then resultado div 10 + resultado mod 10 else resultado)
       in modulo10_loop cs (soma + resultado) (if multiplicador = 2 then 1 else 2))"

definition calcular_dv_modulo10 :: "string \<Rightarrow> exn + string" where
  "calcular_dv_modulo10 sequencia =
     bind (modulo10_loop (rev sequencia) 0 2) (\<lambda>soma.
       let resto = soma mod 10;
           dv = (if resto = 0 then 0 else 10 - resto)
       in Inr (str_int dv))"

subsection \<open>calcular_dv_modulo11\<close>

fun modulo11_loop :: "string \<Rightarrow> int \<Rightarrow> int \<Rightarrow> exn + int" where
  "modulo11_loop [] soma multiplicador = Inr soma"
| "modulo11_loop (c # cs) soma multiplicador =
     bind (py_int_char c) (\<lambda>d.
       let soma = soma + d * multiplicador;
           multiplicador = multiplicador + 1;
           multiplicador = (if multiplicador > 9 then 2 else multiplicador)
       in modulo11_loop cs soma multiplicador)"

definition calcular_dv_modulo11 :: "string \<Rightarrow> exn + string" where
  "calcular_dv_modulo11 sequencia =
     bind (modulo11_loop (rev sequencia) 0 2) (\<lambda>soma.
       let resto = soma mod 11;
           dv = 11 - resto;
           dv = (if dv = 0 \<or> dv = 10 \<or> dv = 11 then 1 else dv)
       in Inr (str_int dv))"

subsection \<open>validar_linha_digitavel\<close>

definition validar_linha_digitavel_try :: "runtime \<Rightarrow> pyval \<Rightarrow> exn + resultado" where
  \<comment> \<open>the body of the \<open>try\<close>\<close>
  "validar_linha_digitavel_try rt linha =
     bind (re_sub_nao_digitos rt linha) (\<lambda>digitos.
       if length digitos \<noteq> 47
       then Inr \<lparr>valido = False,
                 erros = [''Linha digit'' @ a_acute @ ''vel deve ter 47 d'' @ i_acute @ ''gitos (tem ''
                          @ str_nat (length digitos) @ '')'']\<rparr>
       else
         let campo1 = slice 0 10 digitos;
             campo2 = slice 10 21 digitos;
             campo3 = slice 21 32 digitos;
             campo4 = slice 32 33 digitos;
             campo5 = slice 33 47 digitos
         in
         bind (idx campo1 9) (\<lambda>dv1_informado.
         bind (calcular_dv_modulo10 (slice 0 9 campo1)) (\<lambda>dv1_calculado.
         let erros1 = (if dv1_informado \<noteq> dv1_calculado
                       then [''DV1 inv'' @ a_acute @ ''lido (esperado: '' @ dv1_calculado
                             @ '', encontrado: '' @ dv1_informado @ '')'']
                       else [])
         in
         bind (idx campo2 10) (\<lambda>dv2_informado.
         bind (calcular_dv_modulo10 (slice 0 10 campo2)) (\<lambda>dv2_calculado.
         let erros2 = (if dv2_informado \<noteq> dv2_calculado
                       then erros1 @ [''DV2 inv'' @ a_acute @ ''lido (esperado: '' @ dv2_calculado
                             @ '', encontrado: '' @ dv2_informado @ '')'']
                       else erros1)
         in
         bind (idx campo3 10) (\<lambda>dv3_informado.
         bind (calcular_dv_modulo10 (slice 0 10 campo3)) (\<lambda>dv3_calculado.
         let erros3 = (if dv3_informado \<noteq> dv3_calculado
                       then erros2 @ [''DV3 inv'' @ a_acute @ ''lido (esperado: '' @ dv3_calculado
                             @ '', encontrado: '' @ dv3_informado @ '')'']
                       else erros2)
         in Inr \<lparr>valido = (length erros3 = 0), erros = erros3\<rparr>)))))))"

definition validar_linha_digitavel :: "runtime \<Rightarrow> pyval \<Rightarrow> resultado" where
  "validar_linha_digitavel rt linha =
     (case validar_linha_digitavel_try rt linha of
        Inr r \<Rightarrow> r
      | Inl e \<Rightarrow> \<lparr>valido = False,
                  erros = [''Erro ao validar linha digit'' @ a_acute @ ''vel: '' @ str_exn e]\<rparr>)"

subsection \<open>validar_codigo_barras\<close>

definition validar_codigo_barras_try :: "runtime \<Rightarrow> pyval \<Rightarrow> exn + resultado" where
  "validar_codigo_barras_try rt codigo =
     bind (re_sub_nao_digitos rt codigo) (\<lambda>digitos.
       if length digitos \<noteq> 44
       then Inr \<lparr>valido = False,
                 erros = [''C'' @ o_acute @ ''digo de barras deve ter 44 d'' @ i_acute @ ''gitos (tem ''
                          @ str_nat (length digitos) @ '')'']\<rparr>
       else
         bind (idx digitos 4) (\<lambda>dv_informado.
         let codigo_sem_dv = slice 0 4 digitos @ slice 5 44 digitos in
         bind (calcular_dv_modulo11 codigo_sem_dv) (\<lambda>dv_calculado.
         let erros1 = (if dv_informado \<noteq> dv_calculado
                       then [''DV do c'' @ o_acute @ ''digo de barras inv'' @ a_acute
                             @ ''lido (esperado: '' @ dv_calculado
                             @ '', encontrado: '' @ dv_informado @ '')'']
                       else [])
         in Inr \<lparr>valido = (length erros1 = 0), erros = erros1\<rparr>)))"

definition validar_codigo_barras :: "runtime \<Rightarrow> pyval \<Rightarrow> resultado" where
  "validar_codigo_barras rt codigo =
     (case validar_codigo_barras_try rt codigo of
        Inr r \<Rightarrow> r
      | Inl e \<Rightarrow> \<lparr>valido = False,
                  erros = [''Erro ao validar c'' @ o_acute @ ''digo de barras: '' @ str_exn e]\<rparr>)"

subsection \<open>validar_valor\<close>

definition validar_valor :: "runtime \<Rightarrow> pyval \<Rightarrow> exn + resultado" where
  \<comment> \<open>no \<open>try\<close> here: the comparison of a value that is not a number raises to the caller\<close>
  "validar_valor rt valor =
     (case valor of
        PFloat x \<Rightarrow>
          let erros1 = (if x \<le> 0 then [''Valor deve ser maior que zero''] else []);
              erros2 = (if x > f64 9999999.99
                        then erros1 @ [''Valor excede limite m'' @ a_acute @ ''ximo (R$ 9.999.999,99)'']
                        else erros1)
          in Inr \<lparr>valido = (length erros2 = 0), erros = erros2\<rparr>
      | _ \<Rightarrow> Inl (TypeError (type_error_msg rt ''<='' valor)))"

subsection \<open>validar_vencimento\<close>

definition dias :: "int \<Rightarrow> int" where
  \<comment> \<open>\<open>.days\<close> of a timedelta of that many microseconds: rounded down\<close>
  "dias delta = delta div 86400000000"

definition validar_vencimento_try :: "runtime \<Rightarrow> pyval \<Rightarrow> exn + resultado" where
  "validar_vencimento_try rt vencimento_str =
     bind (case vencimento_str of
             PStr s \<Rightarrow> strptime rt s ''%d/%m/%Y''
           | _ \<Rightarrow> Inl (TypeError (type_error_msg rt ''strptime'' vencimento_str))) (\<lambda>vencimento.
       let hoje = now rt;
           erros1 = (if dias (hoje - vencimento) > 5 * 365
                     then [''Boleto com vencimento muito antigo ('' @ py_str rt vencimento_str @ '')'']
                     else []);
           erros2 = (if dias (vencimento - hoje) > 2 * 365
                     then erros1 @ [''Boleto com vencimento muito distante (''
                                    @ py_str rt vencimento_str @ '')'']
                     else erros1)
       in Inr \<lparr>valido = (length erros2 = 0), erros = erros2\<rparr>)"

definition validar_vencimento :: "runtime \<Rightarrow> pyval \<Rightarrow> resultado" where
  "validar_vencimento rt vencimento_str =
     (case validar_vencimento_try rt vencimento_str of
        Inr r \<Rightarrow> r
      | Inl e \<Rightarrow> \<lparr>valido = False,
                  erros = [''Data de vencimento inv'' @ a_acute @ ''lida: '' @ str_exn e]\<rparr>)"

subsection \<open>validar_cnpj\<close>

fun soma_pesos :: "string \<Rightarrow> int list \<Rightarrow> nat list \<Rightarrow> int \<Rightarrow> exn + int" where
  \<comment> \<open>\<open>for i in range(n): soma += int(cnpj_digitos[i]) * peso[i]\<close>, the indices as a list\<close>
  "soma_pesos s peso [] soma = Inr soma"
| "soma_pesos s peso (i # is) soma =
     bind (int_at s i) (\<lambda>d.
       if i < length peso then soma_pesos s peso is (soma + d * (peso ! i))
       else Inl (IndexError ''list index out of range''))"

definition validar_cnpj_try :: "runtime \<Rightarrow> pyval \<Rightarrow> exn + resultado" where
  "validar_cnpj_try rt cnpj =
     bind (re_sub_nao_digitos rt cnpj) (\<lambda>cnpj_digitos.
       if length cnpj_digitos \<noteq> 14
       then Inr \<lparr>valido = False, erros = [''CNPJ deve ter 14 d'' @ i_acute @ ''gitos'']\<rparr>
       else
         bind (idx cnpj_digitos 0) (\<lambda>primeiro.
         if cnpj_digitos = concat (replicate 14 primeiro)
         then Inr \<lparr>valido = False,
                   erros = [''CNPJ inv'' @ a_acute @ ''lido (sequ'' @ e_circ @ ''ncia repetida)'']\<rparr>
         else
           bind (soma_pesos cnpj_digitos [5, 4, 3, 2, 9, 8, 7, 6, 5, 4, 3, 2] [0..<12] 0) (\<lambda>soma.
           let resto = soma mod 11;
               dv1 = (if resto < 2 then 0 else 11 - resto)
           in
           bind (int_at cnpj_digitos 12) (\<lambda>d12.
           let erros1 = (if d12 \<noteq> dv1
                         then [''Primeiro d'' @ i_acute @ ''gito verificador do CNPJ inv'' @ a_acute @ ''lido'']
                         else [])
           in
           bind (soma_pesos cnpj_digitos [6, 5, 4, 3, 2, 9, 8, 7, 6, 5, 4, 3, 2] [0..<13] 0) (\<lambda>soma.
           let resto = soma mod 11;
               dv2 = (if resto < 2 then 0 else 11 - resto)
           in
           bind (int_at cnpj_digitos 13) (\<lambda>d13.
           let erros2 = (if d13 \<noteq> dv2
                         then erros1 @ [''Segundo d'' @ i_acute @ ''gito verificador do CNPJ inv''
                                        @ a_acute @ ''lido'']
                         else erros1)
           in Inr \<lparr>valido = (length erros2 = 0), erros = erros2\<rparr>))))))"

definition validar_cnpj :: "runtime \<Rightarrow> pyval \<Rightarrow> resultado" where
  "validar_cnpj rt cnpj =
     (case validar_cnpj_try rt cnpj of
        Inr r \<Rightarrow> r
      | Inl e \<Rightarrow> \<lparr>valido = False, erros = [''Erro ao validar CNPJ: '' @ str_exn e]\<rparr>)"

subsection \<open>validar_codigo_banco\<close>

definition bancos_validos :: "string list" where
  "bancos_validos =
     [''001'', ''033'', ''104'', ''237'', ''341'', ''748'', ''756'',
      ''077'', ''260'', ''290'', ''403'', ''422'', ''140'', ''197'']"

definition validar_codigo_banco :: "runtime \<Rightarrow> pyval \<Rightarrow> resultado" where
  \<comment> \<open>a value that is not a \<open>str\<close> is hashable and equal to no member of the set\<close>
  "validar_codigo_banco rt codigo =
     (let erros1 = (if \<not> (case codigo of PStr s \<Rightarrow> s \<in> set bancos_validos | _ \<Rightarrow> False)
                    then [''C'' @ o_acute @ ''digo de banco desconhecido: '' @ py_str rt codigo]
                    else [])
      in \<lparr>valido = (length erros1 = 0), erros = erros1\<rparr>)"

subsection \<open>validar_boleto_febraban\<close>

type_synonym acumulado = "string list \<times> (string \<rightharpoonup> resultado)"

definition registrar :: "string \<Rightarrow> resultado \<Rightarrow> acumulado \<Rightarrow> acumulado" where
  \<comment> \<open>\<open>if not r['valido']: erros.extend(r['erros'])\<close>, then \<open>detalhes[chave] = r\<close>\<close>
  "registrar chave r ac =
     (case ac of (erros_ac, detalhes_ac) \<Rightarrow>
        ((if \<not> valido r then erros_ac @ erros r else erros_ac), detalhes_ac(chave \<mapsto> r)))"

definition nao_encontrado :: "string \<Rightarrow> acumulado \<Rightarrow> acumulado" where
  \<comment> \<open>\<open>erros.append(mensagem)\<close>\<close>
  "nao_encontrado mensagem ac = (case ac of (erros_ac, detalhes_ac) \<Rightarrow> (erros_ac @ [mensagem], detalhes_ac))"

definition validar_boleto_febraban_try :: "runtime \<Rightarrow> dict \<Rightarrow> exn + validacao" where
  \<comment> \<open>the body of the \<open>try\<close>; \<open>dados[k]\<close> is read only after \<open>dados.get(k)\<close> was truthy\<close>
  "validar_boleto_febraban_try rt dados =
     (let ac0 = ([], Map.empty);
          ac1 = (if truthy (dget dados ''linha_digitavel'')
                 then registrar ''linha_digitavel''
                        (validar_linha_digitavel rt (dget dados ''linha_digitavel'')) ac0
                 else nao_encontrado (''Linha digit'' @ a_acute @ ''vel n'' @ a_tilde @ ''o encontrada'') ac0);
          ac2 = (if truthy (dget dados ''codigo_barras'')
                 then registrar ''codigo_barras''
                        (validar_codigo_barras rt (dget dados ''codigo_barras'')) ac1
                 else ac1)
      in
      bind (if truthy (dget dados ''valor'')
            then bind (validar_valor rt (dget dados ''valor'')) (\<lambda>r. Inr (registrar ''valor'' r ac2))
            else Inr (nao_encontrado (''Valor n'' @ a_tilde @ ''o encontrado'') ac2)) (\<lambda>ac3.
      let ac4 = (if truthy (dget dados ''vencimento'')
                 then registrar ''vencimento''
                        (validar_vencimento rt (dget dados ''vencimento'')) ac3
                 else nao_encontrado (''Vencimento n'' @ a_tilde @ ''o encontrado'') ac3);
          ac5 = (if truthy (dget dados ''beneficiario_cnpj'')
                 then registrar ''cnpj'' (validar_cnpj rt (dget dados ''beneficiario_cnpj'')) ac4
                 else ac4);
          ac6 = (if truthy (dget dados ''codigo_banco'')
                 then registrar ''banco'' (validar_codigo_banco rt (dget dados ''codigo_banco'')) ac5
                 else nao_encontrado (''C'' @ o_acute @ ''digo do banco n'' @ a_tilde @ ''o encontrado'') ac5)
      in Inr \<lparr>valido = (length (fst ac6) = 0), erros = fst ac6, detalhes = snd ac6\<rparr>))"

definition validar_boleto_febraban :: "runtime \<Rightarrow> dict \<Rightarrow> validacao" where
  "validar_boleto_febraban rt dados =
     (case validar_boleto_febraban_try rt dados of
        Inr v \<Rightarrow> v
      | Inl e \<Rightarrow> \<lparr>valido = False,
                  erros = [''Erro na valida'' @ c_cedil @ a_tilde @ ''o: '' @ str_exn e],
                  detalhes = Map.empty\<rparr>)"

section \<open>ml/parser.py\<close>

text \<open>
  \<open>re.search\<close> is the library's: \<open>re_search rt padrao ignorecase texto\<close> is \<open>None\<close> when
  nothing matches, and otherwise the match, a function from the number of a group to the
  text of that group: \<open>m n\<close> is \<open>m.group(n)\<close>, and \<open>m.groups()[i]\<close> is \<open>m (i + 1)\<close>.
\<close>

definition replace_char :: "char \<Rightarrow> string \<Rightarrow> string \<Rightarrow> string" where
  \<comment> \<open>\<open>s.replace(c, r)\<close> for a one-character \<open>c\<close>\<close>
  "replace_char c r s = concat (map (\<lambda>x. if x = c then r else [x]) s)"

subsection \<open>extrair_linha_digitavel\<close>

definition extrair_linha_digitavel :: "runtime \<Rightarrow> string \<Rightarrow> exn + pyval" where
  "extrair_linha_digitavel rt texto0 =
     (let texto = replace_char (CHR 0x0A) '' '' texto0;
          padrao = ''('' @ backslash @ ''d{5})[.'' @ backslash @ ''s]?('' @ backslash @ ''d{5})'' @ backslash @ ''s?('' @ backslash @ ''d{5})[.'' @ backslash @ ''s]?('' @ backslash @ ''d{6})'' @ backslash @ ''s?('' @ backslash @ ''d{5})[.'' @ backslash @ ''s]?('' @ backslash @ ''d{6})'' @ backslash @ ''s?('' @ backslash @ ''d)'' @ backslash @ ''s?('' @ backslash @ ''d{14})''
      in case re_search rt padrao False texto of
           Some m \<Rightarrow>
             Inr (PStr (m 1 @ ''.'' @ m 2 @ '' '' @ m 3 @ ''.''
                        @ m 4 @ '' '' @ m 5 @ ''.'' @ m 6
                        @ '' '' @ m 7 @ '' '' @ m 8))
         | None \<Rightarrow>
             (let padrao_simples = backslash @ ''b('' @ backslash @ ''d{47})'' @ backslash @ ''b''
              in case re_search rt padrao_simples False texto of
                   Some m \<Rightarrow>
                     (let digitos = m 1 in
                      bind (idx digitos 32) (\<lambda>d32.
                        Inr (PStr (slice 0 5 digitos @ ''.'' @ slice 5 10 digitos @ '' ''
                                   @ slice 10 15 digitos @ ''.'' @ slice 15 21 digitos @ '' ''
                                   @ slice 21 26 digitos @ ''.'' @ slice 26 32 digitos @ '' ''
                                   @ d32 @ '' '' @ slice 33 47 digitos))))
                 | None \<Rightarrow> Inr PNone))"

subsection \<open>extrair_codigo_barras\<close>

definition extrair_codigo_barras :: "runtime \<Rightarrow> string \<Rightarrow> pyval" where
  "extrair_codigo_barras rt texto =
     (let padrao = backslash @ ''b('' @ backslash @ ''d{44})'' @ backslash @ ''b''
      in case re_search rt padrao False texto of
           Some m \<Rightarrow> PStr (m 1)
         | None \<Rightarrow> PNone)"

subsection \<open>extrair_valor\<close>

fun extrair_valor_loop :: "runtime \<Rightarrow> string list \<Rightarrow> string \<Rightarrow> pyval" where
  \<comment> \<open>\<open>for padrao in padroes\<close>; a \<open>float\<close> that raises goes on to the next pattern\<close>
  "extrair_valor_loop rt [] texto = PNone"
| "extrair_valor_loop rt (padrao # padroes) texto =
     (case re_search rt padrao True texto of
        Some m \<Rightarrow>
          (let valor_str = m 1;
               valor_str = replace_char (CHR 0x2C) ''.'' (replace_char (CHR 0x2E) [] valor_str)
           in case float_of_str rt valor_str of
                Inr x \<Rightarrow> PFloat x
              | Inl e \<Rightarrow> extrair_valor_loop rt padroes texto)
      | None \<Rightarrow> extrair_valor_loop rt padroes texto)"

definition extrair_valor :: "runtime \<Rightarrow> string \<Rightarrow> pyval" where
  "extrair_valor rt texto =
     extrair_valor_loop rt
       [''R'' @ backslash @ ''$?'' @ backslash @ ''s?('' @ backslash @ ''d{1,3}(?:[.,]'' @ backslash @ ''d{3})*[.,]'' @ backslash @ ''d{2})'',
        ''Valor[:'' @ backslash @ ''s]+R'' @ backslash @ ''$?'' @ backslash @ ''s?('' @ backslash @ ''d{1,3}(?:[.,]'' @ backslash @ ''d{3})*[.,]'' @ backslash @ ''d{2})'',
        ''('' @ backslash @ ''d{1,3}(?:[.,]'' @ backslash @ ''d{3})*[.,]'' @ backslash @ ''d{2})'']
       texto"

subsection \<open>extrair_vencimento\<close>

fun extrair_vencimento_loop :: "runtime \<Rightarrow> string list \<Rightarrow> string \<Rightarrow> pyval" where
  "extrair_vencimento_loop rt [] texto = PNone"
| "extrair_vencimento_loop rt (padrao # padroes) texto =
     (case re_search rt padrao True texto of
        Some m \<Rightarrow>
          (let data_str = m 1
           in if length data_str = 10
              then (case strptime rt data_str ''%d/%m/%Y'' of
                      Inr d \<Rightarrow> PStr data_str
                    | Inl e \<Rightarrow> extrair_vencimento_loop rt padroes texto)
              else (case strptime rt data_str ''%d/%m/%y'' of
                      Inr d \<Rightarrow> PStr (strftime rt d ''%d/%m/%Y'')
                    | Inl e \<Rightarrow> extrair_vencimento_loop rt padroes texto))
      | None \<Rightarrow> extrair_vencimento_loop rt padroes texto)"

definition extrair_vencimento :: "runtime \<Rightarrow> string \<Rightarrow> pyval" where
  "extrair_vencimento rt texto =
     extrair_vencimento_loop rt
       [''Vencimento[:'' @ backslash @ ''s]+('' @ backslash @ ''d{2}/'' @ backslash @ ''d{2}/'' @ backslash @ ''d{4})'',
        ''('' @ backslash @ ''d{2}/'' @ backslash @ ''d{2}/'' @ backslash @ ''d{4})'',
        ''('' @ backslash @ ''d{2}/'' @ backslash @ ''d{2}/'' @ backslash @ ''d{2})'']
       texto"

subsection \<open>extrair_cnpj\<close>

fun extrair_cnpj_loop :: "runtime \<Rightarrow> string list \<Rightarrow> string \<Rightarrow> pyval" where
  "extrair_cnpj_loop rt [] texto = PNone"
| "extrair_cnpj_loop rt (padrao # padroes) texto =
     (case re_search rt padrao False texto of
        Some m \<Rightarrow>
          (let cnpj = m 1;
               cnpj = filter is_digit cnpj
           in if length cnpj = 14
              then PStr (slice 0 2 cnpj @ ''.'' @ slice 2 5 cnpj @ ''.'' @ slice 5 8 cnpj @ ''/''
                         @ slice 8 12 cnpj @ ''-'' @ slice 12 14 cnpj)
              else extrair_cnpj_loop rt padroes texto)
      | None \<Rightarrow> extrair_cnpj_loop rt padroes texto)"

definition extrair_cnpj :: "runtime \<Rightarrow> string \<Rightarrow> pyval" where
  "extrair_cnpj rt texto =
     extrair_cnpj_loop rt
       [''('' @ backslash @ ''d{2}[.'' @ backslash @ ''s]?'' @ backslash @ ''d{3}[.'' @ backslash @ ''s]?'' @ backslash @ ''d{3}[/'' @ backslash @ ''s]?'' @ backslash @ ''d{4}[-'' @ backslash @ ''s]?'' @ backslash @ ''d{2})'',
        backslash @ ''b('' @ backslash @ ''d{14})'' @ backslash @ ''b'']
       texto"

subsection \<open>identificar_banco\<close>

definition bancos :: "(string \<times> string) list" where
  "bancos =
     [(''001'', ''Banco do Brasil''),
      (''033'', ''Santander''),
      (''104'', ''Caixa Econ'' @ o_circ @ ''mica Federal''),
      (''237'', ''Bradesco''),
      (''341'', ''Ita'' @ u_acute),
      (''748'', ''Sicredi''),
      (''756'', ''Bancoob''),
      (''077'', ''Banco Inter''),
      (''260'', ''Nubank''),
      (''290'', ''PagSeguro''),
      (''403'', ''Cora'')]"

definition identificar_banco :: "runtime \<Rightarrow> pyval \<Rightarrow> string" where
  \<comment> \<open>\<open>bancos.get(codigo_banco, f"Banco {codigo_banco}")\<close>: only a \<open>str\<close> can be a key\<close>
  "identificar_banco rt codigo_banco =
     (case (case codigo_banco of PStr s \<Rightarrow> map_of bancos s | _ \<Rightarrow> None) of
        Some nome \<Rightarrow> nome
      | None \<Rightarrow> ''Banco '' @ py_str rt codigo_banco)"

subsection \<open>parse_dados_boleto\<close>

definition dados_iniciais :: dict where
  "dados_iniciais =
     [''codigo_barras'' \<mapsto> PNone, ''linha_digitavel'' \<mapsto> PNone, ''valor'' \<mapsto> PNone,
      ''vencimento'' \<mapsto> PNone, ''beneficiario_nome'' \<mapsto> PNone, ''beneficiario_cnpj'' \<mapsto> PNone,
      ''codigo_banco'' \<mapsto> PNone, ''banco_nome'' \<mapsto> PNone, ''agencia'' \<mapsto> PNone]"

definition prefixo3 :: "pyval \<Rightarrow> pyval" where
  \<comment> \<open>\<open>linha_digitavel[:3]\<close>; the extractor returns a \<open>str\<close> or \<open>None\<close>\<close>
  "prefixo3 v = (case v of PStr s \<Rightarrow> PStr (slice 0 3 s) | _ \<Rightarrow> v)"

definition parse_dados_boleto :: "runtime \<Rightarrow> string \<Rightarrow> dict" where
  \<comment> \<open>an exception inside the \<open>try\<close> returns \<open>dados\<close> as filled so far\<close>
  "parse_dados_boleto rt texto_ocr =
     (let dados = dados_iniciais
      in case extrair_linha_digitavel rt texto_ocr of
           Inl e \<Rightarrow> dados
         | Inr linha_digitavel \<Rightarrow>
             (let dados = (if truthy linha_digitavel
                           then dados(''linha_digitavel'' \<mapsto> linha_digitavel,
                                      ''codigo_banco'' \<mapsto> prefixo3 linha_digitavel)
                           else dados);
                  codigo_barras = extrair_codigo_barras rt texto_ocr;
                  dados = (if truthy codigo_barras then dados(''codigo_barras'' \<mapsto> codigo_barras)
                           else dados);
                  valor = extrair_valor rt texto_ocr;
                  dados = (if truthy valor then dados(''valor'' \<mapsto> valor) else dados);
                  vencimento = extrair_vencimento rt texto_ocr;
                  dados = (if truthy vencimento then dados(''vencimento'' \<mapsto> vencimento) else dados);
                  cnpj = extrair_cnpj rt texto_ocr;
                  dados = (if truthy cnpj then dados(''beneficiario_cnpj'' \<mapsto> cnpj) else dados);
                  banco = identificar_banco rt (dget dados ''codigo_banco'');
                  dados = (if banco \<noteq> [] then dados(''banco_nome'' \<mapsto> PStr banco) else dados)
              in dados))"

section \<open>ml/model.py\<close>

record features =
  banco :: int
  codigoBanco :: int
  agencia :: int
  valor :: rat
  linha_codBanco :: int
  linha_moeda :: int
  linha_valor :: int

text \<open>
  The classifier is external: \<open>predict\<close> gives the class of the one row, \<open>predict_proba\<close>
  the probabilities of that row.
\<close>

record modelo =
  predict :: "rat list \<Rightarrow> int"
  predict_proba :: "rat list \<Rightarrow> rat list"

record probabilidades_t =
  falso :: rat
  verdadeiro :: rat

record predicao =
  is_fraudulento :: bool
  classe_predita :: int
  score_fraude :: int
  confianca :: rat
  probabilidades :: probabilidades_t
  features_usadas :: features

definition py_int :: "rat \<Rightarrow> int" where
  \<comment> \<open>\<open>int(x)\<close> of a float: towards zero\<close>
  "py_int x = (if x \<ge> 0 then \<lfloor>x\<rfloor> else \<lceil>x\<rceil>)"

definition item :: "rat list \<Rightarrow> nat \<Rightarrow> exn + rat" where
  \<comment> \<open>\<open>xs[i]\<close>\<close>
  "item xs i = (if i < length xs then Inr (xs ! i) else Inl (IndexError ''index out of range''))"

definition features_array :: "features \<Rightarrow> rat list" where
  \<comment> \<open>\<open>[features[name] for name in feature_names]\<close>, the row of the DataFrame\<close>
  "features_array fs =
     [of_int (banco fs), of_int (codigoBanco fs), of_int (agencia fs), valor fs,
      of_int (linha_codBanco fs), of_int (linha_moeda fs), of_int (linha_valor fs)]"

definition predizer_fraude :: "modelo \<Rightarrow> features \<Rightarrow> exn + predicao" where
  \<comment> \<open>the \<open>except\<close> logs and raises again\<close>
  "predizer_fraude m fs =
     (let classe = predict m (features_array fs);
          probs = predict_proba m (features_array fs)
      in bind (item probs 0) (\<lambda>prob_falso.
         bind (item probs 1) (\<lambda>prob_verdadeiro.
           Inr \<lparr>is_fraudulento = (classe = 0),
                classe_predita = classe,
                score_fraude = py_int (f64 (prob_falso * 100)),
                confianca = max prob_falso prob_verdadeiro,
                probabilidades = \<lparr>falso = prob_falso, verdadeiro = prob_verdadeiro\<rparr>,
                features_usadas = fs\<rparr>)))"

section \<open>ml/explainer.py\<close>

text \<open>
  The functions whose Python name starts with an underscore drop it. Of the bundle that
  \<open>gerar_explicacao_humanizada\<close> returns, the technical metrics \<open>avancado\<close> and the
  timestamp \<open>gerado_em\<close> are left out: they are computed without raising and nothing
  below reads them. \<open>predicao_ml\<close> is the dictionary of \<open>predizer_fraude\<close>, whose keys are
  always present.
\<close>

subsection \<open>gerar_recomendacao\<close>

record recomendacao =
  nivel_risco :: string
  cor :: string
  acao_principal :: string
  mensagem :: string
  proximos_passos :: "string list"

definition gerar_recomendacao :: "bool \<Rightarrow> rat \<Rightarrow> int \<Rightarrow> recomendacao" where
  "gerar_recomendacao is_fraud conf s_fraude =
     (if is_fraud then
        (if conf \<ge> f64 0.85 then
           \<lparr>nivel_risco = ''ALTO'',
            cor = ''danger'',
            acao_principal = ''N'' @ A_tilde @ ''O PAGAR (Alta Probabilidade de Fraude)'',
            mensagem = ''Este boleto apresenta FORTES ind'' @ i_acute
                       @ ''cios de falsifica'' @ c_cedil @ a_tilde
                       @ ''o. Recomendamos fortemente n'' @ a_tilde
                       @ ''o efetuar o pagamento.'',
            proximos_passos = [''N'' @ A_tilde @ ''O efetue o pagamento deste boleto'',
                               ''Entre em contato DIRETAMENTE com a empresa emissora pelos canais oficiais'',
                               ''Reporte este poss'' @ i_acute @ ''vel boleto falso ''
                               @ a_grave @ ''s autoridades competentes'',
                               ''Solicite um novo boleto atrav'' @ e_acute
                               @ ''s de canais seguros e oficiais'',
                               ''Verifique se o e-mail/site de origem '' @ e_acute
                               @ '' leg'' @ i_acute @ ''timo'']\<rparr>
         else if conf \<ge> f64 0.65 then
           \<lparr>nivel_risco = ''M'' @ E_acute @ ''DIO-ALTO'',
            cor = ''warning'',
            acao_principal = ''VERIFICAR ANTES DE PAGAR'',
            mensagem = ''Este boleto apresenta caracter'' @ i_acute
                       @ ''sticas suspeitas. '' @ E_acute @ '' necess'' @ a_acute
                       @ ''ria verifica'' @ c_cedil @ a_tilde
                       @ ''o adicional antes do pagamento.'',
            proximos_passos = [''Aguarde! N'' @ a_tilde @ ''o pague ainda'',
                               ''Confirme os dados com a empresa emissora pelos canais oficiais'',
                               ''Verifique se os dados banc'' @ a_acute
                               @ ''rios correspondem aos oficiais'',
                               ''Confirme a autenticidade do e-mail/site de origem'',
                               ''Solicite nova via por canal seguro, se necess'' @ a_acute
                               @ ''rio'']\<rparr>
         else
           \<lparr>nivel_risco = ''M'' @ E_acute @ ''DIO'',
            cor = ''warning'',
            acao_principal = ''PROCEDER COM CAUTELA'',
            mensagem = ''Algumas irregularidades foram detectadas. Recomendamos verifica''
                       @ c_cedil @ a_tilde @ ''o antes do pagamento.'',
            proximos_passos = [''Confira cuidadosamente todos os dados do boleto'',
                               ''Em caso de d'' @ u_acute
                               @ ''vida, contate a empresa emissora'',
                               ''Verifique se o valor e vencimento est'' @ a_tilde
                               @ ''o corretos'',
                               ''Confirme se o banco '' @ e_acute
                               @ '' o esperado para este tipo de cobran'' @ c_cedil @ ''a'']\<rparr>)
      else
        (if conf \<ge> f64 0.85 then
           \<lparr>nivel_risco = ''BAIXO'',
            cor = ''success'',
            acao_principal = ''PODE PAGAR (Com Verifica'' @ c_cedil @ a_tilde @ ''o)'',
            mensagem = ''Este boleto aparenta ser aut'' @ e_circ
                       @ ''ntico. Mesmo assim, sempre confira os dados antes do pagamento.'',
            proximos_passos = [''Boleto aparenta ser leg'' @ i_acute @ ''timo'',
                               ''Confira os dados: valor, vencimento e benefici'' @ a_acute
                               @ ''rio'',
                               ''Verifique se o banco corresponde ao esperado'',
                               ''Em caso de qualquer d'' @ u_acute
                               @ ''vida, contate o emissor'',
                               ''Proceda com o pagamento normalmente'']\<rparr>
         else if conf \<ge> f64 0.65 then
           \<lparr>nivel_risco = ''BAIXO-M'' @ E_acute @ ''DIO'',
            cor = ''success'',
            acao_principal = ''PROV'' @ A_acute @ ''VEL AUTENTICIDADE'',
            mensagem = ''O boleto passou nas verifica'' @ c_cedil @ o_tilde @ ''es b''
                       @ a_acute @ ''sicas, mas sempre confirme os dados importantes.'',
            proximos_passos = [''Verifica'' @ c_cedil @ o_tilde @ ''es de seguran''
                               @ c_cedil @ ''a aprovadas'',
                               ''Confira valor e vencimento'',
                               ''Em caso de d'' @ u_acute
                               @ ''vida, confirme com o emissor'',
                               ''Voc'' @ e_circ @ '' pode prosseguir com o pagamento'']\<rparr>
         else
           \<lparr>nivel_risco = ''INCERTO'',
            cor = ''medium'',
            acao_principal = ''VERIFICAR MANUALMENTE'',
            mensagem = ''N'' @ a_tilde @ ''o foi poss'' @ i_acute
                       @ ''vel determinar com certeza. Recomendamos verifica'' @ c_cedil
                       @ a_tilde @ ''o manual cuidadosa.'',
            proximos_passos = [''Analise cuidadosamente todos os dados'',
                               ''Confirme a autenticidade com o emissor'',
                               ''Verifique os dados banc'' @ a_acute @ ''rios'',
                               ''Proceda somente ap'' @ o_acute @ ''s confirma'' @ c_cedil
                               @ a_tilde @ ''o'']\<rparr>))"

subsection \<open>determinar_gravidade, calcular_impacto, get_cor_gravidade\<close>

definition determinar_gravidade :: "string \<Rightarrow> string" where
  "determinar_gravidade erro =
     (let erro_lower = lower erro
      in if list_ex (\<lambda>palavra. py_in palavra erro_lower)
              [''inv'' @ a_acute @ ''lido'', ''incorreto'', ''falha cr'' @ i_acute @ ''tica'']
         then ''critica''
         else if list_ex (\<lambda>palavra. py_in palavra erro_lower)
              [''d'' @ i_acute @ ''gito verificador'', ''c'' @ o_acute @ ''digo de barras'']
         then ''alta''
         else if list_ex (\<lambda>palavra. py_in palavra erro_lower) [''formato'', ''incompleto'']
         then ''media''
         else ''baixa'')"

definition calcular_impacto :: "string \<Rightarrow> int" where
  "calcular_impacto g =
     (case map_of [(''critica'', 95), (''alta'', 80), (''media'', 60), (''baixa'', 30)] g of
        Some i \<Rightarrow> i
      | None \<Rightarrow> 50)"

definition get_cor_gravidade :: "string \<Rightarrow> string" where
  "get_cor_gravidade g =
     (case map_of [(''critica'', ''danger''), (''alta'', ''warning''), (''media'', ''medium''),
                   (''baixa'', ''primary'')] g of
        Some c \<Rightarrow> c
      | None \<Rightarrow> ''medium'')"

subsection \<open>gerar_razoes_detalhadas\<close>

record razao =
  gravidade :: string
  categoria :: string
  categoria_nome :: string
  cor :: string
  titulo :: string
  descricao_simples :: string
  descricao_avancada :: string
  impacto :: int
  fonte :: string

definition razao_validacao :: "string \<Rightarrow> razao" where
  \<comment> \<open>the entry appended for one validation error\<close>
  "razao_validacao erro =
     (let g = determinar_gravidade erro
      in \<lparr>gravidade = g,
          categoria = ''validacao_tecnica'',
          categoria_nome = ''Valida'' @ c_cedil @ a_tilde @ ''o T'' @ e_acute @ ''cnica'',
          cor = get_cor_gravidade g,
          titulo = ''Poss'' @ i_acute @ ''vel Inconsist'' @ e_circ @ ''ncia T'' @ e_acute
                   @ ''cnica'',
          descricao_simples = ''Foi identificada uma poss'' @ i_acute
                              @ ''vel irregularidade: '' @ erro,
          descricao_avancada = ''Valida'' @ c_cedil @ a_tilde @ ''o FEBRABAN: '' @ erro
                               @ ''. Isso pode indicar adultera'' @ c_cedil @ a_tilde
                               @ ''o ou erro na gera'' @ c_cedil @ a_tilde
                               @ ''o do boleto.'',
          impacto = calcular_impacto g,
          fonte = ''Valida'' @ c_cedil @ a_tilde @ ''o FEBRABAN''\<rparr>)"

definition razao_ml :: "runtime \<Rightarrow> int \<Rightarrow> razao list" where
  \<comment> \<open>the entries appended under "Razoes baseadas em ML": at most one\<close>
  "razao_ml rt s_fraude =
     (if of_int s_fraude > f64 0.7 then
        [\<lparr>gravidade = ''alta'',
          categoria = ''machine_learning'',
          categoria_nome = ''An'' @ a_acute @ ''lise de Padr'' @ o_tilde @ ''es'',
          cor = ''danger'',
          titulo = ''Padr'' @ a_tilde @ ''o Suspeito Identificado'',
          descricao_simples = ''O modelo de IA identificou caracter'' @ i_acute
                              @ ''sticas que sugerem poss'' @ i_acute
                              @ ''vel fraude (confian'' @ c_cedil @ ''a: ''
                              @ format_float rt (of_int (s_fraude * 100)) ''.0f''
                              @ ''%)'',
          descricao_avancada = ''Score de fraude: ''
                               @ format_float rt (of_int s_fraude) ''.2f''
                               @ ''. O modelo Random Forest, treinado com milhares de boletos reais e falsos, identificou padr''
                               @ o_tilde @ ''es estat'' @ i_acute @ ''sticos at''
                               @ i_acute @ ''picos que podem indicar falsifica''
                               @ c_cedil @ a_tilde @ ''o.'',
          impacto = 85,
          fonte = ''Machine Learning''\<rparr>]
      else if of_int s_fraude < f64 0.3 then
        [\<lparr>gravidade = ''baixa'',
          categoria = ''machine_learning'',
          categoria_nome = ''An'' @ a_acute @ ''lise de Padr'' @ o_tilde @ ''es'',
          cor = ''success'',
          titulo = ''Padr'' @ a_tilde @ ''o Aparentemente Normal'',
          descricao_simples = ''O modelo de IA n'' @ a_tilde @ ''o identificou caracter''
                              @ i_acute @ ''sticas suspeitas significativas (confian''
                              @ c_cedil @ ''a: ''
                              @ format_float rt (of_int ((1 - s_fraude) * 100)) ''.0f''
                              @ ''%)'',
          descricao_avancada = ''Score de autenticidade: ''
                               @ format_float rt (of_int (1 - s_fraude)) ''.2f''
                               @ ''. As caracter'' @ i_acute
                               @ ''sticas analisadas sugerem conformidade com padr''
                               @ o_tilde @ ''es de boletos leg'' @ i_acute @ ''timos.'',
          impacto = 15,
          fonte = ''Machine Learning''\<rparr>]
      else [])"

definition razao_valor :: "runtime \<Rightarrow> dict \<Rightarrow> exn + razao list" where
  \<comment> \<open>\<open>dados_extraidos.get('valor', 0) > 10000\<close>: the default only for a missing key;
      a value that is not a number raises\<close>
  "razao_valor rt dados_extraidos =
     (case dados_extraidos ''valor'' of
        None \<Rightarrow> Inr []
      | Some (PFloat x) \<Rightarrow>
          if x > 10000 then
            Inr [\<lparr>gravidade = ''media'',
                  categoria = ''valor'',
                  categoria_nome = ''An'' @ a_acute @ ''lise de Valor'',
                  cor = ''warning'',
                  titulo = ''Valor Elevado'',
                  descricao_simples = ''O valor do boleto '' @ e_acute @ '' elevado (R$ ''
                                      @ format_float rt x '',.2f'' @ ''). Recomenda-se verifica''
                                      @ c_cedil @ a_tilde @ ''o adicional.'',
                  descricao_avancada = ''Boletos com valores acima de R$ 10.000,00 merecem aten''
                                       @ c_cedil @ a_tilde
                                       @ ''o extra. Em caso de fraude, o preju'' @ i_acute
                                       @ ''zo seria significativo.'',
                  impacto = 60,
                  fonte = ''An'' @ a_acute @ ''lise de Risco''\<rparr>]
          else Inr []
      | Some v \<Rightarrow> Inl (TypeError (type_error_msg rt ''>'' v)))"

definition razao_geral :: razao where
  "razao_geral =
     \<lparr>gravidade = ''baixa'',
      categoria = ''geral'',
      categoria_nome = ''An'' @ a_acute @ ''lise Geral'',
      cor = ''primary'',
      titulo = ''An'' @ a_acute @ ''lise Completa Realizada'',
      descricao_simples = ''Todas as verifica'' @ c_cedil @ o_tilde
                          @ ''es de seguran'' @ c_cedil @ ''a foram executadas.'',
      descricao_avancada = ''O boleto passou por valida'' @ c_cedil @ a_tilde
                           @ ''o FEBRABAN, an'' @ a_acute
                           @ ''lise de Machine Learning e verifica'' @ c_cedil
                           @ o_tilde @ ''es de padr'' @ o_tilde @ ''es suspeitos.'',
      impacto = 30,
      fonte = ''Sistema DetectaBB''\<rparr>"

definition gerar_razoes_detalhadas :: "runtime \<Rightarrow> dict \<Rightarrow> validacao \<Rightarrow> predicao \<Rightarrow> exn + razao list" where
  "gerar_razoes_detalhadas rt dados_extraidos resultado_validacao predicao_ml =
     (let razoes1 = map razao_validacao (erros resultado_validacao);
          razoes2 = razoes1 @ razao_ml rt (score_fraude predicao_ml)
      in bind (razao_valor rt dados_extraidos) (\<lambda>rv.
           let razoes3 = razoes2 @ rv;
               razoes4 = (if razoes3 = [] then razoes3 @ [razao_geral] else razoes3)
           in Inr razoes4))"

subsection \<open>identificar_principal_motivo\<close>

definition identificar_principal_motivo :: "validacao \<Rightarrow> predicao \<Rightarrow> string" where
  "identificar_principal_motivo resultado_validacao predicao_ml =
     (let es = erros resultado_validacao
      in if es \<noteq> [] then
           (let erros_criticos =
                  filter (\<lambda>e. py_in (''inv'' @ a_acute @ ''lido'') (lower e) \<or> py_in ''incorreto'' (lower e)) es
            in if erros_criticos \<noteq> []
               then ''Poss'' @ i_acute @ ''vel irregularidade detectada: '' @ hd erros_criticos
               else ''Inconsist'' @ e_circ @ ''ncia identificada: '' @ hd es)
         else
           (let s_fraude = score_fraude predicao_ml
            in if of_int s_fraude > f64 0.8 then
                 ''Modelo de ML identificou padr'' @ a_tilde @ ''o suspeito com alta confian'' @ c_cedil @ ''a''
               else if of_int s_fraude > f64 0.6 then
                 ''Modelo de ML identificou caracter'' @ i_acute @ ''sticas at'' @ i_acute @ ''picas''
               else if of_int s_fraude < f64 0.3 then
                 ''Todas as verifica'' @ c_cedil @ o_tilde @ ''es sugerem autenticidade''
               else
                 ''An'' @ a_acute @ ''lise inconclusiva - recomenda-se verifica'' @ c_cedil @ a_tilde @ ''o manual''))"

subsection \<open>gerar_explicacao_humanizada\<close>

record simples_t =
  status :: string
  confianca :: string
  resumo :: string
  principal_motivo :: string
  acao_recomendada :: string

record explicacao_t =
  simples :: simples_t
  razoes :: "razao list"
  recomendacao :: recomendacao

definition gerar_explicacao_humanizada ::
    "runtime \<Rightarrow> dict \<Rightarrow> validacao \<Rightarrow> predicao \<Rightarrow> exn + explicacao_t" where
  "gerar_explicacao_humanizada rt dados_extraidos resultado_validacao predicao_ml =
     (let is_fraud = is_fraudulento predicao_ml;
          s_fraude = score_fraude predicao_ml;
          conf = predicao.confianca predicao_ml;
          nivel_confianca =
            (if conf \<ge> f64 0.9 then ''Muito Alta''
             else if conf \<ge> f64 0.75 then ''Alta''
             else if conf \<ge> f64 0.6 then ''M'' @ e_acute @ ''dia''
             else ''Baixa'');
          st = (if is_fraud then ''POSSIVELMENTE FALSO'' else ''POSSIVELMENTE AUT'' @ E_circ @ ''NTICO'');
          res = (if is_fraud
                 then ''Este boleto apresenta caracter'' @ i_acute @ ''sticas suspeitas que sugerem poss'' @ i_acute @ ''vel falsifica'' @ c_cedil @ a_tilde @ ''o.''
                 else ''Este boleto aparenta ser aut'' @ e_circ @ ''ntico, mas sempre confira os dados com o emissor.'');
          acao = (if is_fraud
                  then ''Recomendamos N'' @ A_tilde @ ''O efetuar o pagamento sem verifica'' @ c_cedil @ a_tilde @ ''o adicional''
                  else ''Voc'' @ e_circ @ '' pode prosseguir com cautela, mas sempre verifique os dados'');
          explicacao_simples =
            \<lparr>status = st, confianca = nivel_confianca, resumo = res,
             principal_motivo = identificar_principal_motivo resultado_validacao predicao_ml,
             acao_recomendada = acao\<rparr>
      in bind (gerar_razoes_detalhadas rt dados_extraidos resultado_validacao predicao_ml) (\<lambda>rz.
           Inr \<lparr>simples = explicacao_simples, razoes = rz,
                recomendacao = gerar_recomendacao is_fraud conf s_fraude\<rparr>))"

section \<open>worker/tasks.py: the final result of processar_boleto\<close>

record fraude_analise =
  isFraudulento :: bool
  score :: int
  confianca :: rat
  metodos :: "string list"
  motivos :: "string list"
  explicacao :: explicacao_t

definition fraudeAnalise :: "validacao \<Rightarrow> predicao \<Rightarrow> explicacao_t \<Rightarrow> fraude_analise" where
  \<comment> \<open>step 5 and the \<open>fraudeAnalise\<close> entry that is stored\<close>
  "fraudeAnalise v predicao_ml expl =
     (let is_fraud = (\<not> valido v) \<or> is_fraudulento predicao_ml;
          metodos0 = [];
          metodos1 = (if \<not> valido v then metodos0 @ [''validacao_febraban''] else metodos0);
          metodos2 = (if is_fraudulento predicao_ml then metodos1 @ [''modelo_ml''] else metodos1)
      in \<lparr>isFraudulento = is_fraud,
          score = score_fraude predicao_ml,
          confianca = predicao.confianca predicao_ml,
          metodos = metodos2,
          motivos = (if \<not> valido v then erros v else []),
          explicacao = expl\<rparr>)"

definition processar_boleto ::
    "runtime \<Rightarrow> modelo \<Rightarrow> dict \<Rightarrow> features \<Rightarrow> exn + fraude_analise" where
  \<comment> \<open>steps 3 to 6, from the parsed \<open>dados\<close> and the prepared \<open>features\<close>; an exception fails the job\<close>
  "processar_boleto rt m dados fs =
     (let v = validar_boleto_febraban rt dados
      in bind (predizer_fraude m fs) (\<lambda>predicao_ml.
         bind (gerar_explicacao_humanizada rt dados v predicao_ml) (\<lambda>expl.
           Inr (fraudeAnalise v predicao_ml expl))))"

section \<open>Reference computations and test doubles\<close>

text \<open>
  The check digits of a CNPJ as the specification words them: the weighted sum of the
  leading digits modulo 11, and \<open>0\<close> for a remainder below 2, else 11 minus the remainder.
\<close>

definition digit_val :: "char \<Rightarrow> int" where
  "digit_val c = int (of_char c) - 48"

text \<open>
  The check digits of the line and of the barcode as the specification words them. The
  digits are taken from right to left, \<open>k\<close> counting from 0. Modulo 10: the multiplier is
  2, 1, 2, 1 and so on, a product above 9 is replaced by the sum of its two digits, and
  the check digit is 0 when the sum is a multiple of 10, else 10 minus the remainder.
  Modulo 11: the multiplier runs 2 to 9 and starts again at 2, the check digit is 11 minus
  the remainder of the sum, and 0, 10 and 11 become 1.
\<close>

definition spec_parcela_modulo10 :: "char \<Rightarrow> nat \<Rightarrow> int" where
  "spec_parcela_modulo10 c k =
     (let r = digit_val c * (if even k then 2 else 1)
      in if r > 9 then r div 10 + r mod 10 else r)"

definition spec_dv_modulo10 :: "string \<Rightarrow> int" where
  "spec_dv_modulo10 ds =
     (let soma = sum_list (map2 spec_parcela_modulo10 (rev ds) [0..<length ds])
      in if soma mod 10 = 0 then 0 else 10 - soma mod 10)"

definition spec_parcela_modulo11 :: "char \<Rightarrow> nat \<Rightarrow> int" where
  "spec_parcela_modulo11 c k = digit_val c * (2 + int (k mod 8))"

definition spec_dv_modulo11 :: "string \<Rightarrow> int" where
  "spec_dv_modulo11 ds =
     (let soma = sum_list (map2 spec_parcela_modulo11 (rev ds) [0..<length ds]);
          dv = 11 - soma mod 11
      in if dv = 0 \<or> dv = 10 \<or> dv = 11 then 1 else dv)"

definition spec_dv_mod11 :: "int list \<Rightarrow> string \<Rightarrow> int" where
  "spec_dv_mod11 pesos ds =
     (let resto = sum_list (map2 (\<lambda>c w. digit_val c * w) ds pesos) mod 11
      in if resto < 2 then 0 else 11 - resto)"

definition spec_cnpj_dv1 :: "string \<Rightarrow> int" where
  "spec_cnpj_dv1 ds = spec_dv_mod11 [5, 4, 3, 2, 9, 8, 7, 6, 5, 4, 3, 2] (take 12 ds)"

definition spec_cnpj_dv2 :: "string \<Rightarrow> int" where
  "spec_cnpj_dv2 ds = spec_dv_mod11 [6, 5, 4, 3, 2, 9, 8, 7, 6, 5, 4, 3, 2] (take 13 ds)"

text \<open>
  A runtime for the closed examples. Its clock stands at the reference instant
  2026-11-04 00:00, from which instants are counted, and its \<open>strptime\<close> knows the one
  date of the examples, thirty days later; nothing matches its \<open>re.search\<close>.
\<close>

definition rt_teste :: runtime where
  "rt_teste =
     \<lparr>type_error_msg = (\<lambda>operacao v. ''unsupported operand for '' @ operacao),
      strptime = (\<lambda>s formato.
                    if s = ''04/12/2026'' \<and> formato = ''%d/%m/%Y'' then Inr (30 * 86400000000)
                    else Inl (ValueError (''time data '' @ s @ '' does not match format '' @ formato))),
      now = 0,
      strftime = (\<lambda>instante formato. []),
      format_float = (\<lambda>x formato. []),
      float_of_str = (\<lambda>s. Inl (ValueError (''could not convert string to float: '' @ s))),
      re_search = (\<lambda>padrao ignorecase texto. None)\<rparr>"

text \<open>The classifier stub \<open>(class = 1, [0.05, 0.95])\<close>, and one that returns class 0 with
  the probabilities \<open>[65/128, 63/128]\<close>, both exact in binary floating point.\<close>

definition modelo_teste :: modelo where
  "modelo_teste = \<lparr>predict = (\<lambda>linha. 1), predict_proba = (\<lambda>linha. [f64 0.05, f64 0.95])\<rparr>"

definition modelo_meio :: modelo where
  "modelo_meio = \<lparr>predict = (\<lambda>linha. 0), predict_proba = (\<lambda>linha. [65 / 128, 63 / 128])\<rparr>"

text \<open>
  The fields of the text
  \<open>00190.00009 02800.000008 00000.000018 1 11222333000181 Valor: R$ 150,00 Vencimento: 04/12/2026\<close>:
  the three check digits of the line are right, its last fourteen digits are what the
  CNPJ pattern finds and form a valid CNPJ.
\<close>

definition dados_teste :: dict where
  "dados_teste =
     dados_iniciais
       (''linha_digitavel'' \<mapsto> PStr ''00190.00009 02800.000008 00000.000018 1 11222333000181'',
        ''codigo_banco'' \<mapsto> PStr ''001'',
        ''valor'' \<mapsto> PFloat 150,
        ''vencimento'' \<mapsto> PStr ''04/12/2026'',
        ''beneficiario_cnpj'' \<mapsto> PStr ''11.222.333/0001-81'',
        ''banco_nome'' \<mapsto> PStr ''Banco do Brasil'')"

definition features_teste :: features where
  "features_teste =
     \<lparr>banco = 1, codigoBanco = 1, agencia = 0, valor = 150,
      linha_codBanco = 1, linha_moeda = 9, linha_valor = 2333000181\<rparr>"

definition predicao_teste :: predicao where
  "predicao_teste =
     \<lparr>is_fraudulento = False, classe_predita = 1, score_fraude = 5, confianca = f64 0.95,
      probabilidades = \<lparr>falso = f64 0.05, verdadeiro = f64 0.95\<rparr>, features_usadas = features_teste\<rparr>"

definition explicacao_teste :: explicacao_t where
  "explicacao_teste =
     \<lparr>simples = \<lparr>status = [], confianca = [], resumo = [], principal_motivo = [],
                acao_recomendada = []\<rparr>,
      razoes = [razao_geral],
      recomendacao = gerar_recomendacao False (f64 0.95) 5\<rparr>"

text \<open>
  \<open>retorna P m\<close>: a computation that returns, returns a value with the property \<open>P\<close>;
  \<open>coerente\<close>: a result is valid exactly when it has no errors.
\<close>

definition retorna :: "('a \<Rightarrow> bool) \<Rightarrow> exn + 'a \<Rightarrow> bool" where
  "retorna P m = (case m of Inl e \<Rightarrow> True | Inr r \<Rightarrow> P r)"

abbreviation coerente :: "'a resultado_scheme \<Rightarrow> bool" where
  "coerente r \<equiv> valido r = (erros r = [])"

text \<open>
  The four errors for a missing field; \<open>levanta_valor\<close>: the amount is a string that is
  not empty, on which the comparison of \<open>validar_valor\<close> raises.
\<close>

definition mensagens_nao_encontrado :: "string list" where
  "mensagens_nao_encontrado =
     [''Linha digit'' @ a_acute @ ''vel n'' @ a_tilde @ ''o encontrada'',
      ''Valor n'' @ a_tilde @ ''o encontrado'',
      ''Vencimento n'' @ a_tilde @ ''o encontrado'',
      ''C'' @ o_acute @ ''digo do banco n'' @ a_tilde @ ''o encontrado'']"

definition ausente :: "pyval \<Rightarrow> bool" where
  \<comment> \<open>a field that is \<open>None\<close> or the empty string\<close>
  "ausente v = (v = PNone \<or> v = PStr [])"

definition campos_validados :: "string list" where
  \<comment> \<open>the keys that \<open>validar_boleto_febraban\<close> reads\<close>
  "campos_validados =
     [''linha_digitavel'', ''codigo_barras'', ''valor'', ''vencimento'', ''beneficiario_cnpj'',
      ''codigo_banco'']"

definition levanta_valor :: "dict \<Rightarrow> bool" where
  "levanta_valor dados = (case dget dados ''valor'' of PStr s \<Rightarrow> s \<noteq> [] | _ \<Rightarrow> False)"

abbreviation sem_nao_encontrado :: "'a resultado_scheme \<Rightarrow> bool" where
  "sem_nao_encontrado r \<equiv> set (erros r) \<inter> set mensagens_nao_encontrado = {}"

section \<open>Basic facts\<close>

lemma bind_Inr [simp]: "bind (Inr x) f = f x"
  by (simp add: bind_def)

lemma bind_Inl [simp]: "bind (Inl e) f = Inl e"
  by (simp add: bind_def)

lemma pow2_pos: "0 < pow2 k"
  by (simp add: pow2_def)

lemma arredonda_par_nonneg: "0 \<le> y \<Longrightarrow> 0 \<le> arredonda_par y"
  by (auto simp add: arredonda_par_def Let_def)

lemma f64_nonneg: "0 \<le> x \<Longrightarrow> 0 \<le> f64 x"
  by (auto simp add: f64_def Let_def pow2_pos arredonda_par_nonneg less_imp_le)

section \<open>Fusion of the two verdicts\<close>

text \<open>
  Claim C1. For every validation result and every classifier verdict the stored fusion is
  fraudulent exactly when the validation is invalid or the classifier says fraud;
  \<open>metodos\<close> holds \<open>validacao_febraban\<close> exactly when the validation is invalid and
  \<open>modelo_ml\<close> exactly when the classifier says fraud, and nothing else; \<open>motivos\<close> is the
  error list of an invalid validation and empty otherwise. An invalid validation with a
  classifier that does not say fraud is fraudulent with \<open>metodos\<close> the single
  \<open>validacao_febraban\<close>.
\<close>

theorem fusion_verdict:
  "isFraudulento (fraudeAnalise v c e) = (\<not> valido v \<or> is_fraudulento c)
   \<and> (''validacao_febraban'' \<in> set (metodos (fraudeAnalise v c e))) = (\<not> valido v)
   \<and> (''modelo_ml'' \<in> set (metodos (fraudeAnalise v c e))) = is_fraudulento c
   \<and> set (metodos (fraudeAnalise v c e)) \<subseteq> {''validacao_febraban'', ''modelo_ml''}
   \<and> motivos (fraudeAnalise v c e) = (if \<not> valido v then erros v else [])
   \<and> (\<not> valido v \<and> \<not> is_fraudulento c \<longrightarrow>
        isFraudulento (fraudeAnalise v c e) \<and> metodos (fraudeAnalise v c e) = [''validacao_febraban''])"
  by (auto simp add: fraudeAnalise_def Let_def)

theorem fusion_verdict_witness:
  "isFraudulento (fraudeAnalise (validar_boleto_febraban rt_teste Map.empty) predicao_teste explicacao_teste)
   \<and> metodos (fraudeAnalise (validar_boleto_febraban rt_teste Map.empty) predicao_teste explicacao_teste)
       = [''validacao_febraban'']
   \<and> length (motivos (fraudeAnalise (validar_boleto_febraban rt_teste Map.empty) predicao_teste explicacao_teste)) = 4"
proof -
  have v: "\<not> valido (validar_boleto_febraban rt_teste Map.empty)" by code_simp
  have c: "\<not> is_fraudulento predicao_teste" by code_simp
  have n: "length (erros (validar_boleto_febraban rt_teste Map.empty)) = 4" by code_simp
  show ?thesis
    using fusion_verdict [of "validar_boleto_febraban rt_teste Map.empty" predicao_teste explicacao_teste] v c n
    by simp
qed

section \<open>The score of the classifier\<close>

text \<open>
  Claim C5, as the code has it. For a classifier that returns the probabilities
  \<open>[P0, P1]\<close>, the prediction exists and its score, which the fusion stores unchanged, is
  \<open>int(P0 * 100)\<close>: the float product, rounded to binary64, cut off towards zero. For a
  probability that is not negative the score is at most the float product and more than
  the float product less one; it is not the nearest integer. The confidence is the
  larger probability. The witness also evaluates the outputs 0.29 and 0.03, whose float
  products are just below 29 and exactly 3.
\<close>

theorem score_is_truncated:
  assumes "predict_proba m (features_array fs) = [P0, P1]"
  shows "\<exists>p. predizer_fraude m fs = Inr p
           \<and> score_fraude p = py_int (f64 (P0 * 100))
           \<and> (0 \<le> P0 \<longrightarrow> of_int (score_fraude p) \<le> f64 (P0 * 100)
                          \<and> f64 (P0 * 100) < of_int (score_fraude p) + 1)
           \<and> predicao.confianca p = max P0 P1
           \<and> score (fraudeAnalise v p e) = py_int (f64 (P0 * 100))
           \<and> fraude_analise.confianca (fraudeAnalise v p e) = max P0 P1"
proof -
  have "of_int (py_int (f64 (P0 * 100))) \<le> f64 (P0 * 100)
        \<and> f64 (P0 * 100) < of_int (py_int (f64 (P0 * 100))) + 1" if "0 \<le> P0"
  proof -
    from that have "0 \<le> f64 (P0 * 100)" by (intro f64_nonneg) simp
    then show ?thesis
      using floor_correct [of "f64 (P0 * 100)"] by (simp add: py_int_def)
  qed
  then show ?thesis
    using assms by (simp add: predizer_fraude_def Let_def item_def fraudeAnalise_def)
qed

theorem score_is_truncated_witness:
  "(\<exists>p. predizer_fraude modelo_teste features_teste = Inr p
        \<and> score_fraude p = 5 \<and> predicao.confianca p = f64 0.95)
   \<and> py_int (f64 (f64 0.29 * 100)) = 28
   \<and> py_int (f64 (f64 0.03 * 100)) = 3"
proof -
  have h: "predict_proba modelo_teste (features_array features_teste) = [f64 0.05, f64 0.95]"
    by (simp add: modelo_teste_def)
  have a: "py_int (f64 (f64 0.05 * 100)) = 5" by code_simp
  have b: "max (f64 0.05) (f64 0.95) = f64 0.95" by code_simp
  have c: "py_int (f64 (f64 0.29 * 100)) = 28" by code_simp
  have d: "py_int (f64 (f64 0.03 * 100)) = 3" by code_simp
  show ?thesis
    using score_is_truncated [OF h, of "validar_boleto_febraban rt_teste Map.empty" explicacao_teste] a b c d
    by auto
qed

text \<open>
  Claim C5 as stated fails: with the probabilities \<open>[65/128, 63/128]\<close>, which are binary64
  values, the product is \<open>50.78125\<close>, the score is 50, and the nearest integer is 51.
\<close>

theorem score_round_counterexample:
  "predict_proba modelo_meio (features_array features_teste) = [65 / 128, 63 / 128]
   \<and> f64 (65 / 128) = 65 / 128
   \<and> map_sum id score_fraude (predizer_fraude modelo_meio features_teste) = Inr 50
   \<and> round ((65 / 128 :: rat) * 100) = 51"
  by code_simp

section \<open>The reasons of an explanation\<close>

lemma determinar_gravidade_cases:
  "determinar_gravidade e \<in> {''critica'', ''alta'', ''media'', ''baixa''}"
  by (simp add: determinar_gravidade_def Let_def)

lemma mapa_fixo:
  "g \<in> {''critica'', ''alta'', ''media'', ''baixa''} \<Longrightarrow>
   (g, calcular_impacto g, get_cor_gravidade g)
     \<in> {(''critica'', 95, ''danger''), (''alta'', 80, ''warning''), (''media'', 60, ''medium''),
         (''baixa'', 30, ''primary'')}"
  by (auto simp add: calcular_impacto_def get_cor_gravidade_def)

lemma razao_validacao_mapa:
  "categoria (razao_validacao e) = ''validacao_tecnica''"
  "(gravidade (razao_validacao e), impacto (razao_validacao e), razao.cor (razao_validacao e))
     \<in> {(''critica'', 95, ''danger''), (''alta'', 80, ''warning''), (''media'', 60, ''medium''),
         (''baixa'', 30, ''primary'')}"
  using mapa_fixo [OF determinar_gravidade_cases [of e]]
  by (simp_all add: razao_validacao_def Let_def)

lemma razao_ml_mapa:
  "r \<in> set (razao_ml rt s) \<Longrightarrow>
   categoria r = ''machine_learning''
   \<and> (gravidade r, impacto r, razao.cor r) \<in> {(''alta'', 85, ''danger''), (''baixa'', 15, ''success'')}"
  by (auto simp add: razao_ml_def split: if_splits)

lemma razao_valor_mapa:
  "razao_valor rt d = Inr rv \<Longrightarrow> r \<in> set rv \<Longrightarrow>
   categoria r = ''valor'' \<and> (gravidade r, impacto r, razao.cor r) = (''media'', 60, ''warning'')"
  by (auto simp add: razao_valor_def split: option.splits pyval.splits if_splits)

lemma razao_geral_mapa:
  "categoria razao_geral = ''geral''"
  "(gravidade razao_geral, impacto razao_geral, razao.cor razao_geral) = (''baixa'', 30, ''primary'')"
  by (simp_all add: razao_geral_def)

lemma gerar_razoes_membros:
  assumes "gerar_razoes_detalhadas rt d v p = Inr rz" and "r \<in> set rz"
  shows "(\<exists>e \<in> set (erros v). r = razao_validacao e) \<or> r \<in> set (razao_ml rt (score_fraude p))
         \<or> (\<exists>rv. razao_valor rt d = Inr rv \<and> r \<in> set rv) \<or> r = razao_geral"
proof (cases "razao_valor rt d")
  case (Inl e)
  with assms show ?thesis by (simp add: gerar_razoes_detalhadas_def Let_def)
next
  case (Inr rv)
  with assms show ?thesis
    by (auto simp add: gerar_razoes_detalhadas_def Let_def split: if_splits)
qed

text \<open>
  Claim C7, as the code has it. In every explanation that is produced, an entry of
  \<open>razoes\<close> belongs to one of four categories. The entries for validation errors and
  the general placeholder carry the impact and colour of their severity under the fixed
  map critica (95, danger), alta (80, warning), media (60, medium), baixa (30, primary).
  The entry of the classifier is alta with (85, danger) or baixa with (15, success), and
  the entry for a high amount is media with (60, warning).
\<close>

theorem razoes_impacto_cor:
  assumes "gerar_explicacao_humanizada rt d v p = Inr b" and "r \<in> set (razoes b)"
  shows "categoria r \<in> {''validacao_tecnica'', ''machine_learning'', ''valor'', ''geral''}
       \<and> (categoria r = ''validacao_tecnica'' \<or> categoria r = ''geral'' \<longrightarrow>
            (gravidade r, impacto r, razao.cor r)
              \<in> {(''critica'', 95, ''danger''), (''alta'', 80, ''warning''), (''media'', 60, ''medium''),
                  (''baixa'', 30, ''primary'')})
       \<and> (categoria r = ''machine_learning'' \<longrightarrow>
            (gravidade r, impacto r, razao.cor r) \<in> {(''alta'', 85, ''danger''), (''baixa'', 15, ''success'')})
       \<and> (categoria r = ''valor'' \<longrightarrow>
            (gravidade r, impacto r, razao.cor r) = (''media'', 60, ''warning''))"
proof -
  from assms obtain rz where rz: "gerar_razoes_detalhadas rt d v p = Inr rz" and r: "r \<in> set rz"
    by (cases "gerar_razoes_detalhadas rt d v p")
       (auto simp add: gerar_explicacao_humanizada_def Let_def)
  from gerar_razoes_membros [OF rz r] show ?thesis
  proof (elim disjE bexE exE conjE)
    fix e assume "r = razao_validacao e"
    then show ?thesis using razao_validacao_mapa [of e] by simp
  next
    assume "r \<in> set (razao_ml rt (score_fraude p))"
    from razao_ml_mapa [OF this] show ?thesis by simp
  next
    fix rv assume "razao_valor rt d = Inr rv" "r \<in> set rv"
    from razao_valor_mapa [OF this] show ?thesis by simp
  next
    assume "r = razao_geral"
    then show ?thesis using razao_geral_mapa by simp
  qed
qed

theorem razoes_impacto_cor_witness:
  "\<not> isl (gerar_explicacao_humanizada rt_teste dados_teste (validar_boleto_febraban rt_teste dados_teste) predicao_teste)
   \<and> categoria (hd (razoes (projr (gerar_explicacao_humanizada rt_teste dados_teste
          (validar_boleto_febraban rt_teste dados_teste) predicao_teste)))) = ''machine_learning''
   \<and> impacto (hd (razoes (projr (gerar_explicacao_humanizada rt_teste dados_teste
          (validar_boleto_febraban rt_teste dados_teste) predicao_teste)))) = 85"
proof -
  let ?g = "gerar_explicacao_humanizada rt_teste dados_teste
              (validar_boleto_febraban rt_teste dados_teste) predicao_teste"
  have a: "\<not> isl ?g" by code_simp
  then have b: "?g = Inr (projr ?g)" by simp
  have c: "map categoria (razoes (projr ?g)) = [''machine_learning'']" by code_simp
  then have d: "hd (razoes (projr ?g)) \<in> set (razoes (projr ?g))"
    by (cases "razoes (projr ?g)") simp_all
  from c have e: "categoria (hd (razoes (projr ?g))) = ''machine_learning''"
    by (cases "razoes (projr ?g)") simp_all
  have f: "impacto (hd (razoes (projr ?g))) \<noteq> 15" by code_simp
  show ?thesis
    using razoes_impacto_cor [OF b d] a e f by simp
qed

text \<open>
  Claim C7 as stated fails: the explanation of the example has one entry, of severity
  alta, with impact 85 and colour danger, where the fixed map gives 80 and warning.
\<close>

theorem razoes_mapa_counterexample:
  "\<not> isl (gerar_explicacao_humanizada rt_teste dados_teste (validar_boleto_febraban rt_teste dados_teste) predicao_teste)
   \<and> map gravidade (razoes (projr (gerar_explicacao_humanizada rt_teste dados_teste
          (validar_boleto_febraban rt_teste dados_teste) predicao_teste))) = [''alta'']
   \<and> map impacto (razoes (projr (gerar_explicacao_humanizada rt_teste dados_teste
          (validar_boleto_febraban rt_teste dados_teste) predicao_teste))) = [85]
   \<and> map razao.cor (razoes (projr (gerar_explicacao_humanizada rt_teste dados_teste
          (validar_boleto_febraban rt_teste dados_teste) predicao_teste))) = [''danger'']
   \<and> calcular_impacto ''alta'' = 80 \<and> get_cor_gravidade ''alta'' = ''warning''"
  by code_simp

section \<open>End to end with the classifier stub\<close>

text \<open>
  Claim C6. With a classifier that returns class 1 and the probabilities
  \<open>[0.05, 0.95]\<close>, and an amount among the fields, the job ends with the risk level
  BAIXO, as the claim says, and with an entry of severity alta among the reasons, which
  the claim excludes: \<open>predizer_fraude\<close> gives the score 5 on the scale 0 to 100, and
  \<open>gerar_razoes_detalhadas\<close> compares it with 0.7. This holds for every runtime, every
  result of the validation and every other field.
\<close>

theorem stub_yields_alta:
  assumes "predict m (features_array fs) = 1"
      and "predict_proba m (features_array fs) = [f64 0.05, f64 0.95]"
      and "dados ''valor'' = Some (PFloat x)"
  shows "\<exists>fa. processar_boleto rt m dados fs = Inr fa
           \<and> nivel_risco (recomendacao (explicacao fa)) = ''BAIXO''
           \<and> (\<exists>r \<in> set (razoes (explicacao fa)).
                 gravidade r = ''alta'' \<and> categoria r = ''machine_learning'' \<and> impacto r = 85)"
proof -
  have s: "py_int (f64 (f64 0.05 * 100)) = 5" by code_simp
  have mx: "max (f64 0.05) (f64 0.95) = f64 0.95" by code_simp
  have p: "predizer_fraude m fs =
             Inr \<lparr>is_fraudulento = False, classe_predita = 1, score_fraude = 5, confianca = f64 0.95,
                  probabilidades = \<lparr>falso = f64 0.05, verdadeiro = f64 0.95\<rparr>, features_usadas = fs\<rparr>"
    using assms(1,2) s mx by (simp add: predizer_fraude_def Let_def item_def)
  have lim: "of_int 5 > f64 0.7" by code_simp
  have ml: "razao_ml rt 5 \<noteq> [] \<and> gravidade (hd (razao_ml rt 5)) = ''alta''
            \<and> categoria (hd (razao_ml rt 5)) = ''machine_learning'' \<and> impacto (hd (razao_ml rt 5)) = 85"
    using lim by (simp add: razao_ml_def)
  obtain rv where rv: "razao_valor rt dados = Inr rv"
    using assms(3) by (cases "10000 < x") (simp_all add: razao_valor_def)
  have c85: "f64 0.95 \<ge> f64 0.85" by code_simp
  have rec: "nivel_risco (gerar_recomendacao False (f64 0.95) 5) = ''BAIXO''"
    using c85 by (simp add: gerar_recomendacao_def)
  show ?thesis
    using p ml rv rec
    by (auto simp add: processar_boleto_def gerar_explicacao_humanizada_def
          gerar_razoes_detalhadas_def fraudeAnalise_def Let_def
          intro!: bexI [where x = "hd (razao_ml rt 5)"])
qed

theorem stub_yields_alta_witness:
  "\<not> isl (processar_boleto rt_teste modelo_teste dados_teste features_teste)
   \<and> \<not> isFraudulento (projr (processar_boleto rt_teste modelo_teste dados_teste features_teste))
   \<and> nivel_risco (recomendacao (explicacao (projr
        (processar_boleto rt_teste modelo_teste dados_teste features_teste)))) = ''BAIXO''
   \<and> map gravidade (razoes (explicacao (projr
        (processar_boleto rt_teste modelo_teste dados_teste features_teste)))) = [''alta'']"
proof -
  have a: "predict modelo_teste (features_array features_teste) = 1" by (simp add: modelo_teste_def)
  have b: "predict_proba modelo_teste (features_array features_teste) = [f64 0.05, f64 0.95]"
    by (simp add: modelo_teste_def)
  have c: "dados_teste ''valor'' = Some (PFloat 150)" by (simp add: dados_teste_def)
  have d: "\<not> isFraudulento (projr (processar_boleto rt_teste modelo_teste dados_teste features_teste))"
    by code_simp
  have e: "map gravidade (razoes (explicacao (projr
        (processar_boleto rt_teste modelo_teste dados_teste features_teste)))) = [''alta'']"
    by code_simp
  from stub_yields_alta [where m = modelo_teste and fs = features_teste and dados = dados_teste
      and x = 150 and rt = rt_teste, OF a b c] obtain fa where
    fa: "processar_boleto rt_teste modelo_teste dados_teste features_teste = Inr fa"
    and n: "nivel_risco (recomendacao (explicacao fa)) = ''BAIXO''"
    by blast
  show ?thesis using fa n d e by simp
qed

section \<open>Results of the validators\<close>

lemma retorna_Inr: "P r \<Longrightarrow> retorna P (Inr r)"
  by (simp add: retorna_def)

lemma retorna_Inl: "retorna P (Inl e)"
  by (simp add: retorna_def)

lemma retorna_bind: "(\<And>x. retorna P (f x)) \<Longrightarrow> retorna P (bind m f)"
  by (cases m) (simp_all add: retorna_def)

lemma retorna_if: "retorna P a \<Longrightarrow> retorna P b \<Longrightarrow> retorna P (if c then a else b)"
  by simp

lemma retorna_let: "(\<And>x. retorna P (f x)) \<Longrightarrow> retorna P (Let a f)"
  by (simp add: Let_def)

lemma retorna_D: "retorna P m \<Longrightarrow> m = Inr r \<Longrightarrow> P r"
  by (simp add: retorna_def)

lemmas retorna_intros = retorna_bind retorna_if retorna_let retorna_Inr retorna_Inl

lemma validar_linha_digitavel_try_inv:
  "retorna coerente (validar_linha_digitavel_try rt v)"
  unfolding validar_linha_digitavel_try_def
  by (intro retorna_intros) simp_all

lemma validar_linha_digitavel_inv:
  "coerente (validar_linha_digitavel rt v)"
  using validar_linha_digitavel_try_inv [of rt v]
  by (cases "validar_linha_digitavel_try rt v") (simp_all add: validar_linha_digitavel_def retorna_def)

lemma validar_codigo_barras_try_inv:
  "retorna coerente (validar_codigo_barras_try rt v)"
  unfolding validar_codigo_barras_try_def
  by (intro retorna_intros) simp_all

lemma validar_codigo_barras_inv:
  "coerente (validar_codigo_barras rt v)"
  using validar_codigo_barras_try_inv [of rt v]
  by (cases "validar_codigo_barras_try rt v") (simp_all add: validar_codigo_barras_def retorna_def)

lemma validar_valor_inv:
  "retorna coerente (validar_valor rt v)"
  by (cases v) (simp_all add: validar_valor_def retorna_def Let_def)

lemma validar_vencimento_try_inv:
  "retorna coerente (validar_vencimento_try rt v)"
  unfolding validar_vencimento_try_def
  by (intro retorna_intros) simp_all

lemma validar_vencimento_inv:
  "coerente (validar_vencimento rt v)"
  using validar_vencimento_try_inv [of rt v]
  by (cases "validar_vencimento_try rt v") (simp_all add: validar_vencimento_def retorna_def)

lemma validar_cnpj_try_inv:
  "retorna coerente (validar_cnpj_try rt v)"
  unfolding validar_cnpj_try_def
  by (intro retorna_intros) simp_all

lemma validar_cnpj_inv:
  "coerente (validar_cnpj rt v)"
  using validar_cnpj_try_inv [of rt v]
  by (cases "validar_cnpj_try rt v") (simp_all add: validar_cnpj_def retorna_def)

lemma validar_codigo_banco_inv:
  "coerente (validar_codigo_banco rt v)"
  by (simp add: validar_codigo_banco_def Let_def)

lemma validar_boleto_febraban_try_inv:
  "retorna coerente (validar_boleto_febraban_try rt dados)"
  unfolding validar_boleto_febraban_try_def
  by (intro retorna_intros) simp_all

lemma validar_boleto_febraban_inv:
  "coerente (validar_boleto_febraban rt dados)"
  using validar_boleto_febraban_try_inv [of rt dados]
  by (cases "validar_boleto_febraban_try rt dados")
     (simp_all add: validar_boleto_febraban_def retorna_def)

lemma validar_boleto_febraban_raises:
  assumes "truthy (dget dados ''valor'')" and "validar_valor rt (dget dados ''valor'') = Inl e"
  shows "validar_boleto_febraban rt dados =
           \<lparr>valido = False, erros = [''Erro na valida'' @ c_cedil @ a_tilde @ ''o: '' @ str_exn e],
            detalhes = Map.empty\<rparr>"
proof -
  have "validar_boleto_febraban_try rt dados = Inl e"
    unfolding validar_boleto_febraban_try_def Let_def using assms by simp
  then show ?thesis by (simp add: validar_boleto_febraban_def)
qed

text \<open>
  Claim C8. For every field dictionary, the result of \<open>validar_boleto_febraban\<close> is
  valid exactly when its error list is empty, and so is the result of every
  sub-validator on every value; \<open>validar_valor\<close> has no handler of its own, and its
  result, when it returns one, is valid exactly when its error list is empty. When it
  raises, on an amount that is not a number, \<open>validar_boleto_febraban\<close> returns an invalid
  result with the one error of its handler.
\<close>

theorem valido_iff_no_erros:
  "valido (validar_boleto_febraban rt dados) = (erros (validar_boleto_febraban rt dados) = [])
   \<and> valido (validar_linha_digitavel rt v) = (erros (validar_linha_digitavel rt v) = [])
   \<and> valido (validar_codigo_barras rt v) = (erros (validar_codigo_barras rt v) = [])
   \<and> valido (validar_vencimento rt v) = (erros (validar_vencimento rt v) = [])
   \<and> valido (validar_cnpj rt v) = (erros (validar_cnpj rt v) = [])
   \<and> valido (validar_codigo_banco rt v) = (erros (validar_codigo_banco rt v) = [])
   \<and> (\<forall>r. validar_valor rt v = Inr r \<longrightarrow> valido r = (erros r = []))
   \<and> (\<forall>e. truthy (dget dados ''valor'') \<and> validar_valor rt (dget dados ''valor'') = Inl e \<longrightarrow>
          \<not> valido (validar_boleto_febraban rt dados)
          \<and> erros (validar_boleto_febraban rt dados)
              = [''Erro na valida'' @ c_cedil @ a_tilde @ ''o: '' @ str_exn e])"
  using validar_boleto_febraban_inv [of rt dados] validar_linha_digitavel_inv [of rt v]
    validar_codigo_barras_inv [of rt v] validar_vencimento_inv [of rt v] validar_cnpj_inv [of rt v]
    validar_codigo_banco_inv [of rt v] validar_valor_inv [of rt v]
    validar_boleto_febraban_raises [of dados rt]
  by (simp add: retorna_def split: sum.splits)

theorem valido_iff_no_erros_witness:
  "valido (validar_boleto_febraban rt_teste dados_teste)
   \<and> erros (validar_boleto_febraban rt_teste dados_teste) = []
   \<and> \<not> valido (validar_boleto_febraban rt_teste (dados_teste(''valor'' \<mapsto> PStr ''abc'')))
   \<and> length (erros (validar_boleto_febraban rt_teste (dados_teste(''valor'' \<mapsto> PStr ''abc'')))) = 1
   \<and> valido (projr (validar_valor rt_teste (PFloat 150)))"
proof -
  have a: "erros (validar_boleto_febraban rt_teste dados_teste) = []" by code_simp
  have b: "truthy (dget (dados_teste(''valor'' \<mapsto> PStr ''abc'')) ''valor'')" by (simp add: dget_def)
  have c: "validar_valor rt_teste (dget (dados_teste(''valor'' \<mapsto> PStr ''abc'')) ''valor'')
             = Inl (TypeError ''unsupported operand for <='')"
    by (simp add: dget_def validar_valor_def rt_teste_def)
  have d: "validar_valor rt_teste (PFloat 150) = Inr \<lparr>valido = True, erros = []\<rparr>"
    by code_simp
  show ?thesis
    using valido_iff_no_erros [of rt_teste dados_teste "PFloat 150"]
      valido_iff_no_erros [of rt_teste "dados_teste(''valor'' \<mapsto> PStr ''abc'')" "PFloat 150"]
      a b c d
    by simp
qed

section \<open>The name of the bank\<close>

lemma identificar_banco_nao_vazio: "identificar_banco rt c \<noteq> []"
  by (cases c) (auto simp add: identificar_banco_def bancos_def split: option.splits)

lemma identificar_banco_None: "identificar_banco rt PNone = ''Banco None''"
  by (simp add: identificar_banco_def py_str_def)

text \<open>
  Claim C10. When the extraction of the line returns, \<open>banco_nome\<close> is a string that is
  not empty; when it returns \<open>None\<close>, \<open>codigo_banco\<close> stays \<open>None\<close> and \<open>banco_nome\<close> is
  \<open>Banco None\<close>, the fallback of the lookup applied to \<open>None\<close>.
\<close>

theorem banco_nome_nunca_nulo:
  assumes "extrair_linha_digitavel rt texto = Inr v"
  shows "(\<exists>s. s \<noteq> [] \<and> parse_dados_boleto rt texto ''banco_nome'' = Some (PStr s))
       \<and> (v = PNone \<longrightarrow>
            parse_dados_boleto rt texto ''codigo_banco'' = Some PNone
            \<and> parse_dados_boleto rt texto ''banco_nome'' = Some (PStr ''Banco None''))"
  using assms identificar_banco_nao_vazio identificar_banco_None [of rt]
  by (simp add: parse_dados_boleto_def Let_def dget_def dados_iniciais_def)

theorem banco_nome_nunca_nulo_witness:
  "extrair_linha_digitavel rt_teste ''sem linha'' = Inr PNone
   \<and> parse_dados_boleto rt_teste ''sem linha'' ''codigo_banco'' = Some PNone
   \<and> parse_dados_boleto rt_teste ''sem linha'' ''banco_nome'' = Some (PStr ''Banco None'')"
proof -
  have a: "extrair_linha_digitavel rt_teste ''sem linha'' = Inr PNone"
    by (simp add: extrair_linha_digitavel_def rt_teste_def Let_def)
  show ?thesis using banco_nome_nunca_nulo [OF a] a by simp
qed

section \<open>Errors for missing fields\<close>

lemma retorna_let_eq: "(\<And>x. x = a \<Longrightarrow> retorna P (f x)) \<Longrightarrow> retorna P (Let a f)"
  by (simp add: Let_def)

lemmas retorna_intros_eq = retorna_bind retorna_if retorna_let_eq retorna_Inr retorna_Inl

lemma validar_linha_digitavel_try_sem:
  "retorna sem_nao_encontrado (validar_linha_digitavel_try rt v)"
  unfolding validar_linha_digitavel_try_def
  by (intro retorna_intros_eq) (auto simp add: mensagens_nao_encontrado_def)

lemma validar_linha_digitavel_sem:
  "sem_nao_encontrado (validar_linha_digitavel rt v)"
  using validar_linha_digitavel_try_sem [of rt v]
  by (cases "validar_linha_digitavel_try rt v")
     (simp_all add: validar_linha_digitavel_def retorna_def mensagens_nao_encontrado_def)

lemma validar_codigo_barras_try_sem:
  "retorna sem_nao_encontrado (validar_codigo_barras_try rt v)"
  unfolding validar_codigo_barras_try_def
  by (intro retorna_intros_eq) (auto simp add: mensagens_nao_encontrado_def)

lemma validar_codigo_barras_sem:
  "sem_nao_encontrado (validar_codigo_barras rt v)"
  using validar_codigo_barras_try_sem [of rt v]
  by (cases "validar_codigo_barras_try rt v")
     (simp_all add: validar_codigo_barras_def retorna_def mensagens_nao_encontrado_def)

lemma validar_valor_sem:
  "validar_valor rt v = Inr r \<Longrightarrow> sem_nao_encontrado r"
  by (cases v) (auto simp add: validar_valor_def Let_def mensagens_nao_encontrado_def split: if_splits)

lemma validar_vencimento_try_sem:
  "retorna sem_nao_encontrado (validar_vencimento_try rt v)"
  unfolding validar_vencimento_try_def
  by (intro retorna_intros_eq) (auto simp add: mensagens_nao_encontrado_def)

lemma validar_vencimento_sem:
  "sem_nao_encontrado (validar_vencimento rt v)"
  using validar_vencimento_try_sem [of rt v]
  by (cases "validar_vencimento_try rt v")
     (simp_all add: validar_vencimento_def retorna_def mensagens_nao_encontrado_def)

lemma validar_cnpj_try_sem:
  "retorna sem_nao_encontrado (validar_cnpj_try rt v)"
  unfolding validar_cnpj_try_def
  by (intro retorna_intros_eq) (auto simp add: mensagens_nao_encontrado_def)

lemma validar_cnpj_sem:
  "sem_nao_encontrado (validar_cnpj rt v)"
  using validar_cnpj_try_sem [of rt v]
  by (cases "validar_cnpj_try rt v")
     (simp_all add: validar_cnpj_def retorna_def mensagens_nao_encontrado_def)

lemma validar_codigo_banco_sem:
  "sem_nao_encontrado (validar_codigo_banco rt v)"
  by (auto simp add: validar_codigo_banco_def Let_def mensagens_nao_encontrado_def)

lemma fst_registrar:
  "fst (registrar chave r ac) = fst ac @ (if \<not> valido r then erros r else [])"
  by (cases ac) (simp add: registrar_def)

lemma snd_registrar: "snd (registrar chave r ac) = (snd ac)(chave \<mapsto> r)"
  by (cases ac) (simp add: registrar_def)

lemma fst_nao_encontrado: "fst (nao_encontrado m ac) = fst ac @ [m]"
  by (cases ac) (simp add: nao_encontrado_def)

lemma snd_nao_encontrado: "snd (nao_encontrado m ac) = snd ac"
  by (cases ac) (simp add: nao_encontrado_def)

lemma registrar_sem:
  assumes "sem_nao_encontrado r" and "m \<in> set mensagens_nao_encontrado"
  shows "(m \<in> set (fst (registrar chave r ac))) = (m \<in> set (fst ac))"
  using assms by (auto simp add: fst_registrar)

lemma nao_encontrado_mem:
  "(m \<in> set (fst (nao_encontrado m' ac))) = (m \<in> set (fst ac) \<or> m = m')"
  by (auto simp add: fst_nao_encontrado)

lemma fst_passo_obrigatorio:
  assumes "coerente r"
  shows "fst (if c then registrar chave r ac else nao_encontrado m ac)
           = fst ac @ (if c then erros r else [m])"
  using assms by (auto simp add: fst_registrar fst_nao_encontrado)

lemma fst_passo_opcional:
  assumes "coerente r"
  shows "fst (if c then registrar chave r ac else ac) = fst ac @ (if c then erros r else [])"
  using assms by (auto simp add: fst_registrar)

lemma snd_passo_obrigatorio:
  "snd (if c then registrar chave r ac else nao_encontrado m ac)
     = (if c then (snd ac)(chave \<mapsto> r) else snd ac)"
  by (simp add: snd_registrar snd_nao_encontrado)

lemma snd_passo_opcional:
  "snd (if c then registrar chave r ac else ac) = (if c then (snd ac)(chave \<mapsto> r) else snd ac)"
  by (simp add: snd_registrar)

lemma levanta_valor_cases:
  obtains (levanta) s where "dget dados ''valor'' = PStr s" "s \<noteq> []" "levanta_valor dados"
        | (ausente) "\<not> truthy (dget dados ''valor'')" "\<not> levanta_valor dados"
        | (numero) x where "dget dados ''valor'' = PFloat x" "x \<noteq> 0" "\<not> levanta_valor dados"
  by (cases "dget dados ''valor''") (auto simp add: levanta_valor_def)

lemma validar_boleto_febraban_levanta:
  assumes "levanta_valor dados"
  shows "validar_boleto_febraban rt dados =
           \<lparr>valido = False,
            erros = [''Erro na valida'' @ c_cedil @ a_tilde @ ''o: ''
                     @ type_error_msg rt ''<='' (dget dados ''valor'')],
            detalhes = Map.empty\<rparr>"
proof -
  from assms obtain s where s: "dget dados ''valor'' = PStr s" "s \<noteq> []"
    by (cases "dget dados ''valor''") (auto simp add: levanta_valor_def)
  then have "validar_valor rt (dget dados ''valor'')
               = Inl (TypeError (type_error_msg rt ''<='' (dget dados ''valor'')))"
    by (simp add: validar_valor_def)
  moreover have "truthy (dget dados ''valor'')" using s by simp
  ultimately show ?thesis using validar_boleto_febraban_raises [of dados rt] by simp
qed

lemma validar_valor_retorna:
  assumes "\<not> levanta_valor dados" and "truthy (dget dados ''valor'')"
  shows "validar_valor rt (dget dados ''valor'') = Inr (projr (validar_valor rt (dget dados ''valor'')))"
  using assms by (cases "dget dados ''valor''") (simp_all add: levanta_valor_def validar_valor_def Let_def)

lemma validar_boleto_febraban_try_retorna:
  assumes "\<not> levanta_valor dados"
  shows "validar_boleto_febraban_try rt dados = Inr (validar_boleto_febraban rt dados)"
proof (cases "truthy (dget dados ''valor'')")
  case True
  from validar_valor_retorna [OF assms True, of rt] show ?thesis
    unfolding validar_boleto_febraban_def validar_boleto_febraban_try_def Let_def
    by (cases "validar_valor rt (dget dados ''valor'')") (simp_all add: True)
next
  case False
  then show ?thesis
    unfolding validar_boleto_febraban_def validar_boleto_febraban_try_def Let_def
    by simp
qed

lemma fst_registrar_coerente:
  "coerente r \<Longrightarrow> fst (registrar chave r ac) = fst ac @ erros r"
  by (auto simp add: fst_registrar)

lemma validar_valor_projr_inv:
  assumes "\<not> levanta_valor dados" and "truthy (dget dados ''valor'')"
  shows "coerente (projr (validar_valor rt (dget dados ''valor'')))"
  using validar_valor_retorna [OF assms, of rt] validar_valor_inv [of rt "dget dados ''valor''"]
  by (simp add: retorna_def split: sum.splits)

lemma erros_validar_boleto_febraban:
  assumes "\<not> levanta_valor dados"
  shows "erros (validar_boleto_febraban rt dados) =
           (if truthy (dget dados ''linha_digitavel'')
            then erros (validar_linha_digitavel rt (dget dados ''linha_digitavel''))
            else [''Linha digit'' @ a_acute @ ''vel n'' @ a_tilde @ ''o encontrada''])
         @ (if truthy (dget dados ''codigo_barras'')
            then erros (validar_codigo_barras rt (dget dados ''codigo_barras'')) else [])
         @ (if truthy (dget dados ''valor'')
            then erros (projr (validar_valor rt (dget dados ''valor'')))
            else [''Valor n'' @ a_tilde @ ''o encontrado''])
         @ (if truthy (dget dados ''vencimento'')
            then erros (validar_vencimento rt (dget dados ''vencimento''))
            else [''Vencimento n'' @ a_tilde @ ''o encontrado''])
         @ (if truthy (dget dados ''beneficiario_cnpj'')
            then erros (validar_cnpj rt (dget dados ''beneficiario_cnpj'')) else [])
         @ (if truthy (dget dados ''codigo_banco'')
            then erros (validar_codigo_banco rt (dget dados ''codigo_banco''))
            else [''C'' @ o_acute @ ''digo do banco n'' @ a_tilde @ ''o encontrado''])"
proof (cases "truthy (dget dados ''valor'')")
  case True
  from validar_valor_retorna [OF assms True, of rt] validar_valor_projr_inv [OF assms True, of rt]
  show ?thesis
    unfolding validar_boleto_febraban_def validar_boleto_febraban_try_def Let_def
    by (cases "validar_valor rt (dget dados ''valor'')")
       (simp_all add: True fst_passo_obrigatorio fst_passo_opcional fst_registrar_coerente
          validar_linha_digitavel_inv validar_codigo_barras_inv validar_vencimento_inv
          validar_cnpj_inv validar_codigo_banco_inv
          split del: if_split)
next
  case False
  then show ?thesis
    unfolding validar_boleto_febraban_def validar_boleto_febraban_try_def Let_def
    by (simp add: fst_passo_obrigatorio fst_passo_opcional fst_nao_encontrado
          validar_linha_digitavel_inv validar_codigo_barras_inv validar_vencimento_inv
          validar_cnpj_inv validar_codigo_banco_inv
          split del: if_split)
qed

lemma detalhes_validar_boleto_febraban:
  assumes "\<not> levanta_valor dados"
  shows "detalhes (validar_boleto_febraban rt dados) ''codigo_barras''
           = (if truthy (dget dados ''codigo_barras'')
              then Some (validar_codigo_barras rt (dget dados ''codigo_barras'')) else None)"
    and "detalhes (validar_boleto_febraban rt dados) ''cnpj''
           = (if truthy (dget dados ''beneficiario_cnpj'')
              then Some (validar_cnpj rt (dget dados ''beneficiario_cnpj'')) else None)"
proof -
  have "detalhes (validar_boleto_febraban rt dados) ''codigo_barras''
           = (if truthy (dget dados ''codigo_barras'')
              then Some (validar_codigo_barras rt (dget dados ''codigo_barras'')) else None)
        \<and> detalhes (validar_boleto_febraban rt dados) ''cnpj''
           = (if truthy (dget dados ''beneficiario_cnpj'')
              then Some (validar_cnpj rt (dget dados ''beneficiario_cnpj'')) else None)"
  proof (cases "truthy (dget dados ''valor'')")
    case True
    from validar_valor_retorna [OF assms True, of rt] show ?thesis
      unfolding validar_boleto_febraban_def validar_boleto_febraban_try_def Let_def
      by (cases "validar_valor rt (dget dados ''valor'')")
         (simp_all add: True snd_registrar snd_nao_encontrado)
  next
    case False
    then show ?thesis
      unfolding validar_boleto_febraban_def validar_boleto_febraban_try_def Let_def
      by (simp add: snd_registrar snd_nao_encontrado)
  qed
  then show "detalhes (validar_boleto_febraban rt dados) ''codigo_barras''
           = (if truthy (dget dados ''codigo_barras'')
              then Some (validar_codigo_barras rt (dget dados ''codigo_barras'')) else None)"
    and "detalhes (validar_boleto_febraban rt dados) ''cnpj''
           = (if truthy (dget dados ''beneficiario_cnpj'')
              then Some (validar_cnpj rt (dget dados ''beneficiario_cnpj'')) else None)"
    by simp_all
qed

lemma filter_sem:
  "sem_nao_encontrado r \<Longrightarrow> filter (\<lambda>e. e \<in> set mensagens_nao_encontrado) (erros r) = []"
  by (auto simp add: filter_empty_conv)

lemma validar_valor_projr_sem:
  assumes "\<not> levanta_valor dados" and "truthy (dget dados ''valor'')"
  shows "sem_nao_encontrado (projr (validar_valor rt (dget dados ''valor'')))"
  using validar_valor_retorna [OF assms, of rt] validar_valor_sem by blast

lemma filtro_nao_encontrado:
  assumes "\<not> levanta_valor dados"
  shows "filter (\<lambda>e. e \<in> set mensagens_nao_encontrado) (erros (validar_boleto_febraban rt dados)) =
           (if truthy (dget dados ''linha_digitavel'') then []
            else [''Linha digit'' @ a_acute @ ''vel n'' @ a_tilde @ ''o encontrada''])
         @ (if truthy (dget dados ''valor'') then [] else [''Valor n'' @ a_tilde @ ''o encontrado''])
         @ (if truthy (dget dados ''vencimento'') then []
            else [''Vencimento n'' @ a_tilde @ ''o encontrado''])
         @ (if truthy (dget dados ''codigo_banco'') then []
            else [''C'' @ o_acute @ ''digo do banco n'' @ a_tilde @ ''o encontrado''])"
proof -
  have v: "truthy (dget dados ''valor'') \<Longrightarrow>
           filter (\<lambda>e. e \<in> set mensagens_nao_encontrado)
             (erros (projr (validar_valor rt (dget dados ''valor'')))) = []"
    using validar_valor_projr_sem [OF assms, of rt] by (rule filter_sem)
  have m: "''Linha digit'' @ a_acute @ ''vel n'' @ a_tilde @ ''o encontrada'' \<in> set mensagens_nao_encontrado"
    "''Valor n'' @ a_tilde @ ''o encontrado'' \<in> set mensagens_nao_encontrado"
    "''Vencimento n'' @ a_tilde @ ''o encontrado'' \<in> set mensagens_nao_encontrado"
    "''C'' @ o_acute @ ''digo do banco n'' @ a_tilde @ ''o encontrado'' \<in> set mensagens_nao_encontrado"
    by (simp_all add: mensagens_nao_encontrado_def)
  show ?thesis
    unfolding erros_validar_boleto_febraban [OF assms]
    using v m
    by (simp add: filter_sem [OF validar_linha_digitavel_sem] filter_sem [OF validar_codigo_barras_sem]
          filter_sem [OF validar_vencimento_sem] filter_sem [OF validar_cnpj_sem]
          filter_sem [OF validar_codigo_banco_sem])
qed

text \<open>
  The guard of each field is the truth value of \<open>dados.get(campo)\<close>. Unless the amount is
  a non-empty string, on which \<open>validar_valor\<close> raises and the handler replaces the whole
  list, the errors for missing fields in the result are exactly those of the fields
  \<open>linha_digitavel\<close>, \<open>valor\<close>, \<open>vencimento\<close> and \<open>codigo_banco\<close> whose value is false,
  once each and in that order; the validators of \<open>codigo_barras\<close> and of the CNPJ run, and
  are recorded in \<open>detalhes\<close>, exactly when the value of the field is true.
\<close>

lemma erros_de_campos_falsos:
  "filter (\<lambda>e. e \<in> set mensagens_nao_encontrado) (erros (validar_boleto_febraban rt dados)) =
     (if levanta_valor dados then []
      else (if truthy (dget dados ''linha_digitavel'') then []
            else [''Linha digit'' @ a_acute @ ''vel n'' @ a_tilde @ ''o encontrada''])
         @ (if truthy (dget dados ''valor'') then [] else [''Valor n'' @ a_tilde @ ''o encontrado''])
         @ (if truthy (dget dados ''vencimento'') then []
            else [''Vencimento n'' @ a_tilde @ ''o encontrado''])
         @ (if truthy (dget dados ''codigo_banco'') then []
            else [''C'' @ o_acute @ ''digo do banco n'' @ a_tilde @ ''o encontrado'']))
   \<and> (''Linha digit'' @ a_acute @ ''vel n'' @ a_tilde @ ''o encontrada''
          \<in> set (erros (validar_boleto_febraban rt dados)))
       = (\<not> truthy (dget dados ''linha_digitavel'') \<and> \<not> levanta_valor dados)
   \<and> (''Valor n'' @ a_tilde @ ''o encontrado'' \<in> set (erros (validar_boleto_febraban rt dados)))
       = (\<not> truthy (dget dados ''valor''))
   \<and> (''Vencimento n'' @ a_tilde @ ''o encontrado'' \<in> set (erros (validar_boleto_febraban rt dados)))
       = (\<not> truthy (dget dados ''vencimento'') \<and> \<not> levanta_valor dados)
   \<and> (''C'' @ o_acute @ ''digo do banco n'' @ a_tilde @ ''o encontrado''
          \<in> set (erros (validar_boleto_febraban rt dados)))
       = (\<not> truthy (dget dados ''codigo_banco'') \<and> \<not> levanta_valor dados)
   \<and> detalhes (validar_boleto_febraban rt dados) ''codigo_barras''
       = (if truthy (dget dados ''codigo_barras'') \<and> \<not> levanta_valor dados
          then Some (validar_codigo_barras rt (dget dados ''codigo_barras'')) else None)
   \<and> detalhes (validar_boleto_febraban rt dados) ''cnpj''
       = (if truthy (dget dados ''beneficiario_cnpj'') \<and> \<not> levanta_valor dados
          then Some (validar_cnpj rt (dget dados ''beneficiario_cnpj'')) else None)"
proof (cases "levanta_valor dados")
  case True
  then have t: "truthy (dget dados ''valor'')"
    by (cases "dget dados ''valor''") (simp_all add: levanta_valor_def)
  show ?thesis
    using True t
    by (simp add: validar_boleto_febraban_levanta mensagens_nao_encontrado_def)
next
  case False
  have mem: "(m \<in> set (erros (validar_boleto_febraban rt dados)))
               = (m \<in> set (filter (\<lambda>e. e \<in> set mensagens_nao_encontrado)
                              (erros (validar_boleto_febraban rt dados))))"
    if "m \<in> set mensagens_nao_encontrado" for m
    using that by simp
  have m: "''Linha digit'' @ a_acute @ ''vel n'' @ a_tilde @ ''o encontrada'' \<in> set mensagens_nao_encontrado"
    "''Valor n'' @ a_tilde @ ''o encontrado'' \<in> set mensagens_nao_encontrado"
    "''Vencimento n'' @ a_tilde @ ''o encontrado'' \<in> set mensagens_nao_encontrado"
    "''C'' @ o_acute @ ''digo do banco n'' @ a_tilde @ ''o encontrado'' \<in> set mensagens_nao_encontrado"
    by (simp_all add: mensagens_nao_encontrado_def)
  show ?thesis
    unfolding mem [OF m(1)] mem [OF m(2)] mem [OF m(3)] mem [OF m(4)]
    unfolding filtro_nao_encontrado [OF False] detalhes_validar_boleto_febraban [OF False]
    using False by simp
qed

lemma truthy_ausente: "v \<noteq> PFloat 0 \<Longrightarrow> truthy v = (\<not> ausente v)"
  by (cases v) (simp_all add: ausente_def)

text \<open>
  Claim C9, as the code has it. A field is missing when \<open>dados.get(campo)\<close> is \<open>None\<close> or
  the empty string. For every field set in which no field of the validator is the number
  zero: unless the amount is a non-empty string, on which \<open>validar_valor\<close> raises and the
  handler replaces the whole list, the errors for missing fields in the result are
  exactly those of the mandatory fields \<open>linha_digitavel\<close>, \<open>valor\<close>, \<open>vencimento\<close> and
  \<open>codigo_banco\<close> that are missing, once each and in that order; none of them belongs to
  \<open>codigo_barras\<close> or the CNPJ, whose validators run, and are recorded in \<open>detalhes\<close>,
  exactly when the field is not missing.
\<close>

theorem erros_de_campos_ausentes:
  assumes "list_all (\<lambda>campo. dget dados campo \<noteq> PFloat 0) campos_validados"
  shows "filter (\<lambda>e. e \<in> set mensagens_nao_encontrado) (erros (validar_boleto_febraban rt dados)) =
     (if levanta_valor dados then []
      else (if ausente (dget dados ''linha_digitavel'')
            then [''Linha digit'' @ a_acute @ ''vel n'' @ a_tilde @ ''o encontrada''] else [])
         @ (if ausente (dget dados ''valor'') then [''Valor n'' @ a_tilde @ ''o encontrado''] else [])
         @ (if ausente (dget dados ''vencimento'')
            then [''Vencimento n'' @ a_tilde @ ''o encontrado''] else [])
         @ (if ausente (dget dados ''codigo_banco'')
            then [''C'' @ o_acute @ ''digo do banco n'' @ a_tilde @ ''o encontrado''] else []))
   \<and> (''Linha digit'' @ a_acute @ ''vel n'' @ a_tilde @ ''o encontrada''
          \<in> set (erros (validar_boleto_febraban rt dados)))
       = (ausente (dget dados ''linha_digitavel'') \<and> \<not> levanta_valor dados)
   \<and> (''Valor n'' @ a_tilde @ ''o encontrado'' \<in> set (erros (validar_boleto_febraban rt dados)))
       = ausente (dget dados ''valor'')
   \<and> (''Vencimento n'' @ a_tilde @ ''o encontrado'' \<in> set (erros (validar_boleto_febraban rt dados)))
       = (ausente (dget dados ''vencimento'') \<and> \<not> levanta_valor dados)
   \<and> (''C'' @ o_acute @ ''digo do banco n'' @ a_tilde @ ''o encontrado''
          \<in> set (erros (validar_boleto_febraban rt dados)))
       = (ausente (dget dados ''codigo_banco'') \<and> \<not> levanta_valor dados)
   \<and> detalhes (validar_boleto_febraban rt dados) ''codigo_barras''
       = (if \<not> ausente (dget dados ''codigo_barras'') \<and> \<not> levanta_valor dados
          then Some (validar_codigo_barras rt (dget dados ''codigo_barras'')) else None)
   \<and> detalhes (validar_boleto_febraban rt dados) ''cnpj''
       = (if \<not> ausente (dget dados ''beneficiario_cnpj'') \<and> \<not> levanta_valor dados
          then Some (validar_cnpj rt (dget dados ''beneficiario_cnpj'')) else None)"
proof -
  from assms have z: "dget dados ''linha_digitavel'' \<noteq> PFloat 0"
    "dget dados ''codigo_barras'' \<noteq> PFloat 0" "dget dados ''valor'' \<noteq> PFloat 0"
    "dget dados ''vencimento'' \<noteq> PFloat 0" "dget dados ''beneficiario_cnpj'' \<noteq> PFloat 0"
    "dget dados ''codigo_banco'' \<noteq> PFloat 0"
    by (simp_all add: campos_validados_def)
  have t: "ausente (dget dados ''linha_digitavel'') = (\<not> truthy (dget dados ''linha_digitavel''))"
    "ausente (dget dados ''codigo_barras'') = (\<not> truthy (dget dados ''codigo_barras''))"
    "ausente (dget dados ''valor'') = (\<not> truthy (dget dados ''valor''))"
    "ausente (dget dados ''vencimento'') = (\<not> truthy (dget dados ''vencimento''))"
    "ausente (dget dados ''beneficiario_cnpj'') = (\<not> truthy (dget dados ''beneficiario_cnpj''))"
    "ausente (dget dados ''codigo_banco'') = (\<not> truthy (dget dados ''codigo_banco''))"
    using z by (simp_all add: truthy_ausente)
  have i: "(if \<not> b then [x] else []) = (if b then [] else [x])" for b and x :: string
    by simp
  show ?thesis
    unfolding t i not_not
    by (rule erros_de_campos_falsos)
qed

theorem erros_de_campos_ausentes_witness:
  "filter (\<lambda>e. e \<in> set mensagens_nao_encontrado)
     (erros (validar_boleto_febraban rt_teste
        (dados_teste(''vencimento'' \<mapsto> PStr [], ''codigo_banco'' \<mapsto> PNone, ''codigo_barras'' \<mapsto> PNone))))
     = [''Vencimento n'' @ a_tilde @ ''o encontrado'',
        ''C'' @ o_acute @ ''digo do banco n'' @ a_tilde @ ''o encontrado'']
   \<and> detalhes (validar_boleto_febraban rt_teste
         (dados_teste(''vencimento'' \<mapsto> PStr [], ''codigo_banco'' \<mapsto> PNone, ''codigo_barras'' \<mapsto> PNone)))
         ''codigo_barras'' = None
   \<and> detalhes (validar_boleto_febraban rt_teste
         (dados_teste(''vencimento'' \<mapsto> PStr [], ''codigo_banco'' \<mapsto> PNone, ''codigo_barras'' \<mapsto> PNone)))
         ''cnpj'' = Some \<lparr>valido = True, erros = []\<rparr>"
proof -
  let ?d = "dados_teste(''vencimento'' \<mapsto> PStr [], ''codigo_banco'' \<mapsto> PNone, ''codigo_barras'' \<mapsto> PNone)"
  have h: "list_all (\<lambda>campo. dget ?d campo \<noteq> PFloat 0) campos_validados" by code_simp
  have a: "\<not> levanta_valor ?d" by code_simp
  have b: "\<not> ausente (dget ?d ''linha_digitavel'')" "\<not> ausente (dget ?d ''valor'')"
    "ausente (dget ?d ''vencimento'')" "ausente (dget ?d ''codigo_banco'')"
    "ausente (dget ?d ''codigo_barras'')" "\<not> ausente (dget ?d ''beneficiario_cnpj'')"
    by code_simp+
  have c: "validar_cnpj rt_teste (dget ?d ''beneficiario_cnpj'') = \<lparr>valido = True, erros = []\<rparr>"
    by code_simp
  show ?thesis
    using erros_de_campos_ausentes [OF h, of rt_teste] a b c by simp
qed

text \<open>
  Claim C9 as stated fails: an empty line is present, not \<open>None\<close>, and is reported as not
  found; and with an amount that is a string the line that is \<open>None\<close> is not reported.
\<close>

theorem campo_vazio_counterexample:
  "dget (dados_teste(''linha_digitavel'' \<mapsto> PStr [])) ''linha_digitavel'' = PStr []
   \<and> erros (validar_boleto_febraban rt_teste (dados_teste(''linha_digitavel'' \<mapsto> PStr [])))
       = [''Linha digit'' @ a_acute @ ''vel n'' @ a_tilde @ ''o encontrada'']
   \<and> dget (Map.empty(''valor'' \<mapsto> PStr ''abc'')) ''linha_digitavel'' = PNone
   \<and> ''Linha digit'' @ a_acute @ ''vel n'' @ a_tilde @ ''o encontrada''
         \<notin> set (erros (validar_boleto_febraban rt_teste (Map.empty(''valor'' \<mapsto> PStr ''abc''))))"
  by code_simp

text \<open>
  An amount of exactly zero never reaches \<open>validar_valor\<close>, which has a message of its own
  for an amount that is not positive: the guard reports it as not found.
\<close>

lemma valor_zero_nao_encontrado:
  "erros (validar_boleto_febraban rt_teste (dados_teste(''valor'' \<mapsto> PFloat 0)))
     = [''Valor n'' @ a_tilde @ ''o encontrado'']
   \<and> validar_valor rt_teste (PFloat 0)
       = Inr \<lparr>valido = False, erros = [''Valor deve ser maior que zero'']\<rparr>"
  by code_simp

section \<open>Check digits\<close>

lemma is_digit_py_int_char: "is_digit c \<Longrightarrow> py_int_char c = Inr (digit_val c)"
  by (simp add: py_int_char_def digit_val_def)

lemma digit_val_range: "is_digit c \<Longrightarrow> 0 \<le> digit_val c \<and> digit_val c \<le> 9"
  by (auto simp add: is_digit_def digit_val_def)

lemma digit_val_inj: "is_digit c \<Longrightarrow> is_digit d \<Longrightarrow> digit_val c = digit_val d \<Longrightarrow> c = d"
  by (simp add: is_digit_def digit_val_def)

lemma str_int_digit:
  assumes "0 \<le> n" and "n \<le> 9"
  shows "str_int n = [char_of (48 + nat n)]"
  using assms by (simp add: str_int_def)

lemma is_digit_char_of:
  assumes "n < 10"
  shows "is_digit (char_of (48 + n :: nat))"
  using assms by (simp add: is_digit_def)

lemma modulo10_loop_digits:
  "list_all is_digit cs \<Longrightarrow> \<exists>n. modulo10_loop cs soma m = Inr n"
  by (induction cs arbitrary: soma m) (simp_all add: is_digit_py_int_char Let_def)

lemma modulo11_loop_digits:
  "list_all is_digit cs \<Longrightarrow> \<exists>n. modulo11_loop cs soma m = Inr n"
  by (induction cs arbitrary: soma m) (simp_all add: is_digit_py_int_char Let_def)

lemma calcular_dv_modulo10_digit:
  assumes "list_all is_digit p"
  shows "\<exists>c. is_digit c \<and> calcular_dv_modulo10 p = Inr [c]"
proof -
  from assms have "list_all is_digit (rev p)" by (simp add: list_all_iff)
  then obtain n where n: "modulo10_loop (rev p) 0 2 = Inr n"
    using modulo10_loop_digits by blast
  define dv where "dv = (if n mod 10 = 0 then 0 else 10 - n mod 10)"
  have r: "0 \<le> dv \<and> dv \<le> 9" unfolding dv_def by auto
  then have "str_int dv = [char_of (48 + nat dv)]" by (simp add: str_int_digit)
  moreover have "is_digit (char_of (48 + nat dv))" using r by (intro is_digit_char_of) auto
  moreover have "calcular_dv_modulo10 p = Inr (str_int dv)"
    using n by (simp add: calcular_dv_modulo10_def dv_def Let_def)
  ultimately show ?thesis by auto
qed

lemma calcular_dv_modulo11_digit:
  assumes "list_all is_digit p"
  shows "\<exists>c. is_digit c \<and> calcular_dv_modulo11 p = Inr [c]"
proof -
  from assms have "list_all is_digit (rev p)" by (simp add: list_all_iff)
  then obtain n where n: "modulo11_loop (rev p) 0 2 = Inr n"
    using modulo11_loop_digits by blast
  define dv where "dv = (if 11 - n mod 11 = 0 \<or> 11 - n mod 11 = 10 \<or> 11 - n mod 11 = 11 then 1
                         else 11 - n mod 11)"
  have "0 \<le> n mod 11 \<and> n mod 11 < 11" by simp
  then have r: "0 \<le> dv \<and> dv \<le> 9" unfolding dv_def by auto
  then have "str_int dv = [char_of (48 + nat dv)]" by (simp add: str_int_digit)
  moreover have "is_digit (char_of (48 + nat dv))" using r by (intro is_digit_char_of) auto
  moreover have "calcular_dv_modulo11 p = Inr (str_int dv)"
    using n by (simp add: calcular_dv_modulo11_def dv_def Let_def)
  ultimately show ?thesis by auto
qed

lemma map2_upt_Suc:
  "map2 f (c # cs) [0..<Suc (length cs)] = f c 0 # map2 (\<lambda>c k. f c (Suc k)) cs [0..<length cs]"
proof -
  have "[0..<Suc (length cs)] = 0 # map Suc [0..<length cs]"
    by (simp only: upt_conv_Cons [of 0 "Suc (length cs)"] map_Suc_upt)
  then show ?thesis by (simp add: zip_map2 case_prod_unfold)
qed

lemma modulo10_loop_spec:
  "list_all is_digit cs \<Longrightarrow>
     modulo10_loop cs soma (if even j then 2 else 1) =
       Inr (soma + sum_list (map2 (\<lambda>c k. spec_parcela_modulo10 c (k + j)) cs [0..<length cs]))"
proof (induction cs arbitrary: soma j)
  case Nil
  then show ?case by simp
next
  case (Cons c cs)
  have m: "(if (if even j then 2 else 1) = (2 :: int) then 1 else 2) = (if even (Suc j) then 2 else (1 :: int))"
    by simp
  have "modulo10_loop (c # cs) soma (if even j then 2 else 1) =
          modulo10_loop cs (soma + spec_parcela_modulo10 c j) (if even (Suc j) then 2 else 1)"
    using Cons.prems unfolding modulo10_loop.simps m [symmetric]
    by (simp add: is_digit_py_int_char spec_parcela_modulo10_def Let_def)
  also have "\<dots> = Inr (soma + spec_parcela_modulo10 c j
                 + sum_list (map2 (\<lambda>c k. spec_parcela_modulo10 c (k + Suc j)) cs [0..<length cs]))"
    using Cons.prems by (intro Cons.IH) simp
  finally show ?case
    by (simp only: length_Cons map2_upt_Suc [where f = "\<lambda>c k. spec_parcela_modulo10 c (k + j)"])
       (simp add: add.assoc)
qed

lemma modulo11_loop_spec:
  "list_all is_digit cs \<Longrightarrow>
     modulo11_loop cs soma (2 + int (j mod 8)) =
       Inr (soma + sum_list (map2 (\<lambda>c k. spec_parcela_modulo11 c (k + j)) cs [0..<length cs]))"
proof (induction cs arbitrary: soma j)
  case Nil
  then show ?case by simp
next
  case (Cons c cs)
  have m: "(if 2 + int (j mod 8) + 1 > 9 then 2 else 2 + int (j mod 8) + 1) = 2 + int (Suc j mod 8)"
  proof -
    have "j mod 8 < 8" by simp
    then show ?thesis by (auto simp add: mod_Suc)
  qed
  have "modulo11_loop (c # cs) soma (2 + int (j mod 8)) =
          modulo11_loop cs (soma + spec_parcela_modulo11 c j) (2 + int (Suc j mod 8))"
    using Cons.prems unfolding modulo11_loop.simps m [symmetric]
    by (simp add: is_digit_py_int_char spec_parcela_modulo11_def Let_def)
  also have "\<dots> = Inr (soma + spec_parcela_modulo11 c j
                 + sum_list (map2 (\<lambda>c k. spec_parcela_modulo11 c (k + Suc j)) cs [0..<length cs]))"
    using Cons.prems by (intro Cons.IH) simp
  finally show ?case
    by (simp only: length_Cons map2_upt_Suc [where f = "\<lambda>c k. spec_parcela_modulo11 c (k + j)"])
       (simp add: add.assoc)
qed

lemma calcular_dv_modulo10_spec:
  assumes "list_all is_digit p"
  shows "\<exists>c. is_digit c \<and> digit_val c = spec_dv_modulo10 p \<and> calcular_dv_modulo10 p = Inr [c]"
proof -
  from assms have "list_all is_digit (rev p)" by (simp add: list_all_iff)
  from modulo10_loop_spec [OF this, of 0 0]
  have n: "modulo10_loop (rev p) 0 2 =
             Inr (sum_list (map2 spec_parcela_modulo10 (rev p) [0..<length p]))"
    by simp
  define dv where "dv = spec_dv_modulo10 p"
  have r: "0 \<le> dv \<and> dv \<le> 9" unfolding dv_def spec_dv_modulo10_def Let_def by auto
  then have s: "str_int dv = [char_of (48 + nat dv)]" by (simp add: str_int_digit)
  have d: "is_digit (char_of (48 + nat dv))" using r by (intro is_digit_char_of) auto
  have v: "digit_val (char_of (48 + nat dv)) = dv"
  proof -
    have "nat dv < 10" using r by auto
    then have "(48 + nat dv) mod 256 = 48 + nat dv" by simp
    then show ?thesis using r by (simp add: digit_val_def)
  qed
  have "calcular_dv_modulo10 p = Inr (str_int dv)"
    using n by (simp add: calcular_dv_modulo10_def dv_def spec_dv_modulo10_def Let_def)
  with s d v show ?thesis unfolding dv_def by auto
qed

lemma calcular_dv_modulo11_spec:
  assumes "list_all is_digit p"
  shows "\<exists>c. is_digit c \<and> digit_val c = spec_dv_modulo11 p \<and> calcular_dv_modulo11 p = Inr [c]"
proof -
  from assms have "list_all is_digit (rev p)" by (simp add: list_all_iff)
  from modulo11_loop_spec [OF this, of 0 0]
  have n: "modulo11_loop (rev p) 0 2 =
             Inr (sum_list (map2 spec_parcela_modulo11 (rev p) [0..<length p]))"
    by simp
  define dv where "dv = spec_dv_modulo11 p"
  have r: "1 \<le> dv \<and> dv \<le> 9" unfolding dv_def spec_dv_modulo11_def Let_def
    by (auto simp add: not_le) 
  then have s: "str_int dv = [char_of (48 + nat dv)]" by (simp add: str_int_digit)
  have d: "is_digit (char_of (48 + nat dv))" using r by (intro is_digit_char_of) auto
  have v: "digit_val (char_of (48 + nat dv)) = dv"
  proof -
    have "nat dv < 10" using r by auto
    then have "(48 + nat dv) mod 256 = 48 + nat dv" by simp
    then show ?thesis using r by (simp add: digit_val_def)
  qed
  have "calcular_dv_modulo11 p = Inr (str_int dv)"
    using n by (simp add: calcular_dv_modulo11_def dv_def spec_dv_modulo11_def Let_def)
  with s d v show ?thesis unfolding dv_def by auto
qed

lemma list_all_filter_is_digit: "list_all is_digit (filter is_digit s)"
  by (simp add: list_all_iff)

lemma list_all_take_drop:
  "list_all P xs \<Longrightarrow> list_all P (take n (drop k xs))"
  by (auto simp add: list_all_iff dest: in_set_takeD in_set_dropD)

lemma validar_linha_digitavel_estrutura:
  assumes ds: "filter is_digit linha = ds" and len: "length ds = 47"
  shows "\<exists>c1 c2 c3.
           calcular_dv_modulo10 (take 9 ds) = Inr [c1]
         \<and> calcular_dv_modulo10 (take 10 (drop 10 ds)) = Inr [c2]
         \<and> calcular_dv_modulo10 (take 10 (drop 21 ds)) = Inr [c3]
         \<and> erros (validar_linha_digitavel rt (PStr linha)) =
             (if ds ! 9 \<noteq> c1
              then [''DV1 inv'' @ a_acute @ ''lido (esperado: '' @ [c1] @ '', encontrado: '' @ [ds ! 9] @ '')'']
              else [])
           @ (if ds ! 20 \<noteq> c2
              then [''DV2 inv'' @ a_acute @ ''lido (esperado: '' @ [c2] @ '', encontrado: '' @ [ds ! 20] @ '')'']
              else [])
           @ (if ds ! 31 \<noteq> c3
              then [''DV3 inv'' @ a_acute @ ''lido (esperado: '' @ [c3] @ '', encontrado: '' @ [ds ! 31] @ '')'']
              else [])"
proof -
  have dig: "list_all is_digit ds" using ds list_all_filter_is_digit by blast
  obtain c1 where c1: "calcular_dv_modulo10 (take 9 ds) = Inr [c1]"
    using calcular_dv_modulo10_digit [OF list_all_take_drop [OF dig, of 9 0]] by auto
  obtain c2 where c2: "calcular_dv_modulo10 (take 10 (drop 10 ds)) = Inr [c2]"
    using calcular_dv_modulo10_digit [OF list_all_take_drop [OF dig, of 10 10]] by auto
  obtain c3 where c3: "calcular_dv_modulo10 (take 10 (drop 21 ds)) = Inr [c3]"
    using calcular_dv_modulo10_digit [OF list_all_take_drop [OF dig, of 10 21]] by auto
  have s1: "slice 0 9 (slice 0 10 ds) = take 9 ds" by (simp add: slice_def)
  have s2: "slice 0 10 (slice 10 21 ds) = take 10 (drop 10 ds)" by (simp add: slice_def)
  have s3: "slice 0 10 (slice 21 32 ds) = take 10 (drop 21 ds)" by (simp add: slice_def)
  have i1: "idx (slice 0 10 ds) 9 = Inr [ds ! 9]" using len by (simp add: slice_def idx_def)
  have i2: "idx (slice 10 21 ds) 10 = Inr [ds ! 20]" using len by (simp add: slice_def idx_def)
  have i3: "idx (slice 21 32 ds) 10 = Inr [ds ! 31]" using len by (simp add: slice_def idx_def)
  have "validar_linha_digitavel_try rt (PStr linha) =
          Inr \<lparr>valido = (length ((if ds ! 9 \<noteq> c1
              then [''DV1 inv'' @ a_acute @ ''lido (esperado: '' @ [c1] @ '', encontrado: '' @ [ds ! 9] @ '')'']
              else [])
           @ (if ds ! 20 \<noteq> c2
              then [''DV2 inv'' @ a_acute @ ''lido (esperado: '' @ [c2] @ '', encontrado: '' @ [ds ! 20] @ '')'']
              else [])
           @ (if ds ! 31 \<noteq> c3
              then [''DV3 inv'' @ a_acute @ ''lido (esperado: '' @ [c3] @ '', encontrado: '' @ [ds ! 31] @ '')'']
              else [])) = 0),
               erros = (if ds ! 9 \<noteq> c1
              then [''DV1 inv'' @ a_acute @ ''lido (esperado: '' @ [c1] @ '', encontrado: '' @ [ds ! 9] @ '')'']
              else [])
           @ (if ds ! 20 \<noteq> c2
              then [''DV2 inv'' @ a_acute @ ''lido (esperado: '' @ [c2] @ '', encontrado: '' @ [ds ! 20] @ '')'']
              else [])
           @ (if ds ! 31 \<noteq> c3
              then [''DV3 inv'' @ a_acute @ ''lido (esperado: '' @ [c3] @ '', encontrado: '' @ [ds ! 31] @ '')'']
              else [])\<rparr>"
    unfolding validar_linha_digitavel_try_def re_sub_nao_digitos_def Let_def
    using ds len by (simp add: s1 s2 s3 i1 i2 i3 c1 c2 c3)
  then have "erros (validar_linha_digitavel rt (PStr linha)) = (if ds ! 9 \<noteq> c1
              then [''DV1 inv'' @ a_acute @ ''lido (esperado: '' @ [c1] @ '', encontrado: '' @ [ds ! 9] @ '')'']
              else [])
           @ (if ds ! 20 \<noteq> c2
              then [''DV2 inv'' @ a_acute @ ''lido (esperado: '' @ [c2] @ '', encontrado: '' @ [ds ! 20] @ '')'']
              else [])
           @ (if ds ! 31 \<noteq> c3
              then [''DV3 inv'' @ a_acute @ ''lido (esperado: '' @ [c3] @ '', encontrado: '' @ [ds ! 31] @ '')'']
              else [])"
    by (simp add: validar_linha_digitavel_def)
  with c1 c2 c3 show ?thesis by blast
qed

text \<open>
  Claim C2. For every string of digits \<open>p\<close>, \<open>calcular_dv_modulo10\<close> returns one digit, the
  one of the weighted sum as the specification words it (\<open>spec_dv_modulo10\<close>); when \<open>p\<close>
  followed by that digit stands as a block of a line of 47 digits (nine digits at
  position 0, ten digits at position 10 or at position 21; the line may be written with
  dots and spaces), \<open>validar_linha_digitavel\<close> reports no check digit error for that
  block, whatever the other blocks are.
\<close>

theorem dv_modulo10_round_trip:
  assumes "list_all is_digit p"
  shows "\<exists>dv. calcular_dv_modulo10 p = Inr dv \<and> length dv = 1 \<and> list_all is_digit dv
          \<and> map digit_val dv = [spec_dv_modulo10 p]
          \<and> (\<forall>linha a b.
                filter is_digit linha = a @ p @ dv @ b \<and> length (a @ p @ dv @ b) = 47 \<longrightarrow>
                  (length a = 0 \<and> length p = 9 \<longrightarrow>
                     (\<forall>e \<in> set (erros (validar_linha_digitavel rt (PStr linha))). take 3 e \<noteq> ''DV1''))
                \<and> (length a = 10 \<and> length p = 10 \<longrightarrow>
                     (\<forall>e \<in> set (erros (validar_linha_digitavel rt (PStr linha))). take 3 e \<noteq> ''DV2''))
                \<and> (length a = 21 \<and> length p = 10 \<longrightarrow>
                     (\<forall>e \<in> set (erros (validar_linha_digitavel rt (PStr linha))). take 3 e \<noteq> ''DV3'')))"
proof -
  from calcular_dv_modulo10_spec [OF assms] obtain c where
    c: "is_digit c" "calcular_dv_modulo10 p = Inr [c]" and v: "digit_val c = spec_dv_modulo10 p"
    by blast
  have "(length a = 0 \<and> length p = 9 \<longrightarrow>
           (\<forall>e \<in> set (erros (validar_linha_digitavel rt (PStr linha))). take 3 e \<noteq> ''DV1''))
      \<and> (length a = 10 \<and> length p = 10 \<longrightarrow>
           (\<forall>e \<in> set (erros (validar_linha_digitavel rt (PStr linha))). take 3 e \<noteq> ''DV2''))
      \<and> (length a = 21 \<and> length p = 10 \<longrightarrow>
           (\<forall>e \<in> set (erros (validar_linha_digitavel rt (PStr linha))). take 3 e \<noteq> ''DV3''))"
    if f: "filter is_digit linha = a @ p @ [c] @ b" and l: "length (a @ p @ [c] @ b) = 47"
    for linha a b
  proof -
    from validar_linha_digitavel_estrutura [OF f l, of rt] obtain c1 c2 c3 where
      k1: "calcular_dv_modulo10 (take 9 (a @ p @ [c] @ b)) = Inr [c1]" and
      k2: "calcular_dv_modulo10 (take 10 (drop 10 (a @ p @ [c] @ b))) = Inr [c2]" and
      k3: "calcular_dv_modulo10 (take 10 (drop 21 (a @ p @ [c] @ b))) = Inr [c3]" and
      e: "erros (validar_linha_digitavel rt (PStr linha)) =
             (if (a @ p @ [c] @ b) ! 9 \<noteq> c1
              then [''DV1 inv'' @ a_acute @ ''lido (esperado: '' @ [c1] @ '', encontrado: ''
                    @ [(a @ p @ [c] @ b) ! 9] @ '')'']
              else [])
           @ (if (a @ p @ [c] @ b) ! 20 \<noteq> c2
              then [''DV2 inv'' @ a_acute @ ''lido (esperado: '' @ [c2] @ '', encontrado: ''
                    @ [(a @ p @ [c] @ b) ! 20] @ '')'']
              else [])
           @ (if (a @ p @ [c] @ b) ! 31 \<noteq> c3
              then [''DV3 inv'' @ a_acute @ ''lido (esperado: '' @ [c3] @ '', encontrado: ''
                    @ [(a @ p @ [c] @ b) ! 31] @ '')'']
              else [])"
      by blast
    have b1: "\<forall>e \<in> set (erros (validar_linha_digitavel rt (PStr linha))). take 3 e \<noteq> ''DV1''"
      if "length a = 0" "length p = 9"
    proof -
      from that have "take 9 (a @ p @ [c] @ b) = p" "(a @ p @ [c] @ b) ! 9 = c"
        by (simp_all add: nth_append)
      with k1 c(2) have "(a @ p @ [c] @ b) ! 9 = c1" by simp
      then show ?thesis unfolding e by auto
    qed
    have b2: "\<forall>e \<in> set (erros (validar_linha_digitavel rt (PStr linha))). take 3 e \<noteq> ''DV2''"
      if "length a = 10" "length p = 10"
    proof -
      from that have "take 10 (drop 10 (a @ p @ [c] @ b)) = p" "(a @ p @ [c] @ b) ! 20 = c"
        by (simp_all add: nth_append)
      with k2 c(2) have "(a @ p @ [c] @ b) ! 20 = c2" by simp
      then show ?thesis unfolding e by auto
    qed
    have b3: "\<forall>e \<in> set (erros (validar_linha_digitavel rt (PStr linha))). take 3 e \<noteq> ''DV3''"
      if "length a = 21" "length p = 10"
    proof -
      from that have "take 10 (drop 21 (a @ p @ [c] @ b)) = p" "(a @ p @ [c] @ b) ! 31 = c"
        by (simp_all add: nth_append)
      with k3 c(2) have "(a @ p @ [c] @ b) ! 31 = c3" by simp
      then show ?thesis unfolding e by auto
    qed
    from b1 b2 b3 show ?thesis by blast
  qed
  note main = this
  have l1: "length [c] = 1" by simp
  have d1: "list_all is_digit [c]" using c(1) by simp
  have v1: "map digit_val [c] = [spec_dv_modulo10 p]" using v by simp
  from main have m: "\<forall>linha a b.
         filter is_digit linha = a @ p @ [c] @ b \<and> length (a @ p @ [c] @ b) = 47 \<longrightarrow>
           (length a = 0 \<and> length p = 9 \<longrightarrow>
              (\<forall>e \<in> set (erros (validar_linha_digitavel rt (PStr linha))). take 3 e \<noteq> ''DV1''))
         \<and> (length a = 10 \<and> length p = 10 \<longrightarrow>
              (\<forall>e \<in> set (erros (validar_linha_digitavel rt (PStr linha))). take 3 e \<noteq> ''DV2''))
         \<and> (length a = 21 \<and> length p = 10 \<longrightarrow>
              (\<forall>e \<in> set (erros (validar_linha_digitavel rt (PStr linha))). take 3 e \<noteq> ''DV3''))"
    by blast
  show ?thesis
  proof (rule exI [of _ "[c]"], intro conjI)
    show "calcular_dv_modulo10 p = Inr [c]" by (rule c(2))
    show "length [c] = 1" by (rule l1)
    show "list_all is_digit [c]" by (rule d1)
    show "map digit_val [c] = [spec_dv_modulo10 p]" by (rule v1)
    show "\<forall>linha a b.
         filter is_digit linha = a @ p @ [c] @ b \<and> length (a @ p @ [c] @ b) = 47 \<longrightarrow>
           (length a = 0 \<and> length p = 9 \<longrightarrow>
              (\<forall>e \<in> set (erros (validar_linha_digitavel rt (PStr linha))). take 3 e \<noteq> ''DV1''))
         \<and> (length a = 10 \<and> length p = 10 \<longrightarrow>
              (\<forall>e \<in> set (erros (validar_linha_digitavel rt (PStr linha))). take 3 e \<noteq> ''DV2''))
         \<and> (length a = 21 \<and> length p = 10 \<longrightarrow>
              (\<forall>e \<in> set (erros (validar_linha_digitavel rt (PStr linha))). take 3 e \<noteq> ''DV3''))"
      by (rule m)
  qed
qed

theorem dv_modulo10_round_trip_witness:
  "calcular_dv_modulo10 ''341917900'' = Inr ''1''
   \<and> spec_dv_modulo10 ''341917900'' = 1
   \<and> length (erros (validar_linha_digitavel rt_teste
         (PStr ''34191.79001 02800.000003 00000.000018 1 11222333000181''))) = 1
   \<and> list_all (\<lambda>e. take 3 e \<noteq> ''DV1'')
        (erros (validar_linha_digitavel rt_teste
           (PStr ''34191.79001 02800.000003 00000.000018 1 11222333000181'')))"
proof -
  have p: "list_all is_digit ''341917900''" by code_simp
  have k: "calcular_dv_modulo10 ''341917900'' = Inr ''1''" by code_simp
  have sp: "spec_dv_modulo10 ''341917900'' = 1" by code_simp
  have f: "filter is_digit ''34191.79001 02800.000003 00000.000018 1 11222333000181''
             = [] @ ''341917900'' @ ''1'' @ ''0280000000300000000018111222333000181''"
    by code_simp
  have l: "length ([] @ ''341917900'' @ ''1'' @ ''0280000000300000000018111222333000181'') = 47"
    by simp
  have n: "length (erros (validar_linha_digitavel rt_teste
         (PStr ''34191.79001 02800.000003 00000.000018 1 11222333000181''))) = 1"
    by code_simp
  from dv_modulo10_round_trip [OF p, of rt_teste] obtain dv where
    d: "calcular_dv_modulo10 ''341917900'' = Inr dv" and
    r: "\<And>linha a b. filter is_digit linha = a @ ''341917900'' @ dv @ b \<Longrightarrow>
          length (a @ ''341917900'' @ dv @ b) = 47 \<Longrightarrow> length a = 0 \<Longrightarrow>
          \<forall>e \<in> set (erros (validar_linha_digitavel rt_teste (PStr linha))). take 3 e \<noteq> ''DV1''"
    by auto
  from d k have dv: "dv = ''1''" by simp
  have "\<forall>e \<in> set (erros (validar_linha_digitavel rt_teste
           (PStr ''34191.79001 02800.000003 00000.000018 1 11222333000181''))). take 3 e \<noteq> ''DV1''"
  proof (rule r)
    show "filter is_digit ''34191.79001 02800.000003 00000.000018 1 11222333000181''
            = [] @ ''341917900'' @ dv @ ''0280000000300000000018111222333000181''"
      unfolding dv by (rule f)
    show "length ([] @ ''341917900'' @ dv @ ''0280000000300000000018111222333000181'') = 47"
      unfolding dv by (rule l)
    show "length ([] :: string) = 0" by simp
  qed
  then show ?thesis using k sp n by (simp add: list_all_iff)
qed

subsection \<open>The barcode\<close>

lemma validar_codigo_barras_estrutura:
  assumes ds: "filter is_digit codigo = ds" and len: "length ds = 44"
  shows "\<exists>c. is_digit c \<and> calcular_dv_modulo11 (take 4 ds @ drop 5 ds) = Inr [c]
           \<and> validar_codigo_barras rt (PStr codigo) =
               \<lparr>valido = (ds ! 4 = c),
                erros = (if ds ! 4 \<noteq> c
                         then [''DV do c'' @ o_acute @ ''digo de barras inv'' @ a_acute
                               @ ''lido (esperado: '' @ [c] @ '', encontrado: '' @ [ds ! 4] @ '')'']
                         else [])\<rparr>"
proof -
  have dig: "list_all is_digit ds" using ds list_all_filter_is_digit by blast
  then have "list_all is_digit (take 4 ds @ drop 5 ds)"
    by (auto simp add: list_all_iff dest: in_set_takeD in_set_dropD)
  from calcular_dv_modulo11_digit [OF this] obtain c where
    c: "is_digit c" "calcular_dv_modulo11 (take 4 ds @ drop 5 ds) = Inr [c]" by blast
  have s: "slice 0 4 ds @ slice 5 44 ds = take 4 ds @ drop 5 ds" using len by (simp add: slice_def)
  have i: "idx ds 4 = Inr [ds ! 4]" using len by (simp add: idx_def)
  have "validar_codigo_barras_try rt (PStr codigo) =
          Inr \<lparr>valido = (ds ! 4 = c),
                erros = (if ds ! 4 \<noteq> c
                         then [''DV do c'' @ o_acute @ ''digo de barras inv'' @ a_acute
                               @ ''lido (esperado: '' @ [c] @ '', encontrado: '' @ [ds ! 4] @ '')'']
                         else [])\<rparr>"
    unfolding validar_codigo_barras_try_def re_sub_nao_digitos_def Let_def
    using ds len by (simp add: s i c)
  then show ?thesis using c by (simp add: validar_codigo_barras_def)
qed

text \<open>
  Claim C3. For every string of 44 digits, \<open>calcular_dv_modulo11\<close> of the digits other
  than the one at index 4 returns one digit, the one of the weighted sum as the
  specification words it (\<open>spec_dv_modulo11\<close>, with 0, 10 and 11 collapsed to 1); the
  barcode with that digit put at index 4 validates with no error, and a barcode is
  valid exactly when its digit at index 4 is that one.
\<close>

theorem dv_modulo11_round_trip:
  assumes "list_all is_digit ds" and "length ds = 44"
  shows "\<exists>c. is_digit c \<and> calcular_dv_modulo11 (take 4 ds @ drop 5 ds) = Inr [c]
           \<and> digit_val c = spec_dv_modulo11 (take 4 ds @ drop 5 ds)
           \<and> (\<forall>codigo. filter is_digit codigo = ds[4 := c] \<longrightarrow>
                 validar_codigo_barras rt (PStr codigo) = \<lparr>valido = True, erros = []\<rparr>)
           \<and> (\<forall>codigo. filter is_digit codigo = ds \<longrightarrow>
                 valido (validar_codigo_barras rt (PStr codigo))
                   = (digit_val (ds ! 4) = spec_dv_modulo11 (take 4 ds @ drop 5 ds)))"
proof -
  have "list_all is_digit (take 4 ds @ drop 5 ds)"
    using assms(1) by (auto simp add: list_all_iff dest: in_set_takeD in_set_dropD)
  from calcular_dv_modulo11_spec [OF this] obtain c where
    c: "is_digit c" "calcular_dv_modulo11 (take 4 ds @ drop 5 ds) = Inr [c]" and
    v: "digit_val c = spec_dv_modulo11 (take 4 ds @ drop 5 ds)" by blast
  have a: "validar_codigo_barras rt (PStr codigo) = \<lparr>valido = True, erros = []\<rparr>"
    if f: "filter is_digit codigo = ds[4 := c]" for codigo
  proof -
    have l: "length (ds[4 := c]) = 44" using assms(2) by simp
    have t: "take 4 (ds[4 := c]) @ drop 5 (ds[4 := c]) = take 4 ds @ drop 5 ds" by simp
    have n: "ds[4 := c] ! 4 = c" using assms(2) by simp
    from validar_codigo_barras_estrutura [OF f l, of rt] c(2) show ?thesis
      unfolding t n by auto
  qed
  have b: "valido (validar_codigo_barras rt (PStr codigo))
             = (digit_val (ds ! 4) = spec_dv_modulo11 (take 4 ds @ drop 5 ds))"
    if f: "filter is_digit codigo = ds" for codigo
  proof -
    have d4: "is_digit (ds ! 4)" using assms by (simp add: list_all_length)
    from validar_codigo_barras_estrutura [OF f assms(2), of rt] c(2)
    have "valido (validar_codigo_barras rt (PStr codigo)) = (ds ! 4 = c)" by auto
    also have "\<dots> = (digit_val (ds ! 4) = digit_val c)"
      using digit_val_inj [OF d4 c(1)] by auto
    finally show ?thesis unfolding v .
  qed
  from c v a b show ?thesis by blast
qed

theorem dv_modulo11_round_trip_witness:
  "calcular_dv_modulo11 (take 4 ''34190000000000150001790001043510047910201500''
                         @ drop 5 ''34190000000000150001790001043510047910201500'') = Inr ''3''
   \<and> spec_dv_modulo11 (take 4 ''34190000000000150001790001043510047910201500''
                         @ drop 5 ''34190000000000150001790001043510047910201500'') = 3
   \<and> validar_codigo_barras rt_teste (PStr ''34193000000000150001790001043510047910201500'')
       = \<lparr>valido = True, erros = []\<rparr>
   \<and> \<not> valido (validar_codigo_barras rt_teste (PStr ''34190000000000150001790001043510047910201500''))"
proof -
  let ?b = "''34190000000000150001790001043510047910201500''"
  have d: "list_all is_digit ?b" by code_simp
  have n: "length ?b = 44" by simp
  have k: "calcular_dv_modulo11 (take 4 ?b @ drop 5 ?b) = Inr ''3''" by code_simp
  from dv_modulo11_round_trip [OF d n, of rt_teste] obtain c where
    c: "calcular_dv_modulo11 (take 4 ?b @ drop 5 ?b) = Inr [c]" and
    v: "digit_val c = spec_dv_modulo11 (take 4 ?b @ drop 5 ?b)" and
    r: "\<And>codigo. filter is_digit codigo = ?b[4 := c] \<Longrightarrow>
          validar_codigo_barras rt_teste (PStr codigo) = \<lparr>valido = True, erros = []\<rparr>" and
    q: "\<And>codigo. filter is_digit codigo = ?b \<Longrightarrow>
          valido (validar_codigo_barras rt_teste (PStr codigo))
            = (digit_val (?b ! 4) = spec_dv_modulo11 (take 4 ?b @ drop 5 ?b))"
    by blast
  from c k have c3: "c = CHR ''3''" by simp
  have v3: "digit_val CHR ''3'' = 3" by code_simp
  have v0: "digit_val (?b ! 4) = 0" by code_simp
  have sp: "spec_dv_modulo11 (take 4 ?b @ drop 5 ?b) = 3" using v unfolding c3 v3 by simp
  have f: "filter is_digit ''34193000000000150001790001043510047910201500'' = ?b[4 := CHR ''3'']"
    by code_simp
  have g: "filter is_digit ?b = ?b" by code_simp
  have ok: "validar_codigo_barras rt_teste (PStr ''34193000000000150001790001043510047910201500'')
       = \<lparr>valido = True, erros = []\<rparr>"
    by (rule r) (unfold c3, rule f)
  have "valido (validar_codigo_barras rt_teste (PStr ?b)) = ((0 :: int) = 3)"
    using q [OF g] unfolding v0 sp .
  then have no: "\<not> valido (validar_codigo_barras rt_teste (PStr ?b))" by simp
  from k sp ok no show ?thesis by simp
qed

subsection \<open>The CNPJ\<close>

lemma int_at_digito:
  "list_all is_digit s \<Longrightarrow> i < length s \<Longrightarrow> int_at s i = Inr (digit_val (s ! i))"
  by (simp add: int_at_def is_digit_py_int_char list_all_length)

lemma soma_pesos_digitos:
  assumes "list_all is_digit s" and "\<forall>i \<in> set indices. i < length s \<and> i < length peso"
  shows "soma_pesos s peso indices soma
           = Inr (soma + (\<Sum>i\<leftarrow>indices. digit_val (s ! i) * peso ! i))"
  using assms(2)
proof (induction indices arbitrary: soma)
  case Nil
  then show ?case by simp
next
  case (Cons i indices)
  then show ?case using assms(1) by (simp add: int_at_digito add.assoc)
qed

lemma soma_indices_map2:
  assumes "length ws = n" and "n \<le> length s"
  shows "(\<Sum>i\<leftarrow>[0..<n]. f (s ! i) (ws ! i)) = sum_list (map2 f (take n s) ws)"
proof -
  have "map (\<lambda>i. f (s ! i) (ws ! i)) [0..<n] = map2 f (take n s) ws"
    using assms by (intro nth_equalityI) simp_all
  then show ?thesis by simp
qed

lemma soma_pesos_spec:
  assumes "list_all is_digit s" and "length peso = n" and "n \<le> length s"
  shows "soma_pesos s peso [0..<n] 0 = Inr (sum_list (map2 (\<lambda>c w. digit_val c * w) (take n s) peso))"
proof -
  have "\<forall>i \<in> set [0..<n]. i < length s \<and> i < length peso" using assms(2,3) by auto
  from soma_pesos_digitos [OF assms(1) this, of 0]
  show ?thesis using soma_indices_map2 [OF assms(2,3), of "\<lambda>c w. digit_val c * w"] by simp
qed

lemma concat_replicate_um: "concat (replicate n [x]) = replicate n x"
  by (induction n) simp_all

lemma validar_cnpj_estrutura:
  assumes ds: "filter is_digit cnpj = ds" and len: "length ds = 14"
  shows "validar_cnpj rt (PStr cnpj) =
           (if ds = replicate 14 (ds ! 0)
            then \<lparr>valido = False,
                  erros = [''CNPJ inv'' @ a_acute @ ''lido (sequ'' @ e_circ @ ''ncia repetida)'']\<rparr>
            else \<lparr>valido = (digit_val (ds ! 12) = spec_cnpj_dv1 ds \<and> digit_val (ds ! 13) = spec_cnpj_dv2 ds),
                  erros = (if digit_val (ds ! 12) \<noteq> spec_cnpj_dv1 ds
                           then [''Primeiro d'' @ i_acute @ ''gito verificador do CNPJ inv'' @ a_acute @ ''lido'']
                           else [])
                        @ (if digit_val (ds ! 13) \<noteq> spec_cnpj_dv2 ds
                           then [''Segundo d'' @ i_acute @ ''gito verificador do CNPJ inv'' @ a_acute @ ''lido'']
                           else [])\<rparr>)"
proof -
  have dig: "list_all is_digit ds" using ds list_all_filter_is_digit by blast
  have i0: "idx ds 0 = Inr [ds ! 0]" using len by (simp add: idx_def)
  have s1: "soma_pesos ds [5, 4, 3, 2, 9, 8, 7, 6, 5, 4, 3, 2] [0..<12] 0
              = Inr (sum_list (map2 (\<lambda>c w. digit_val c * w) (take 12 ds) [5, 4, 3, 2, 9, 8, 7, 6, 5, 4, 3, 2]))"
    using len by (intro soma_pesos_spec [OF dig]) simp_all
  have s2: "soma_pesos ds [6, 5, 4, 3, 2, 9, 8, 7, 6, 5, 4, 3, 2] [0..<13] 0
              = Inr (sum_list (map2 (\<lambda>c w. digit_val c * w) (take 13 ds) [6, 5, 4, 3, 2, 9, 8, 7, 6, 5, 4, 3, 2]))"
    using len by (intro soma_pesos_spec [OF dig]) simp_all
  have a12: "int_at ds 12 = Inr (digit_val (ds ! 12))" using len by (simp add: int_at_digito [OF dig])
  have a13: "int_at ds 13 = Inr (digit_val (ds ! 13))" using len by (simp add: int_at_digito [OF dig])
  have "validar_cnpj_try rt (PStr cnpj) = Inr
           (if ds = replicate 14 (ds ! 0)
            then \<lparr>valido = False,
                  erros = [''CNPJ inv'' @ a_acute @ ''lido (sequ'' @ e_circ @ ''ncia repetida)'']\<rparr>
            else \<lparr>valido = (digit_val (ds ! 12) = spec_cnpj_dv1 ds \<and> digit_val (ds ! 13) = spec_cnpj_dv2 ds),
                  erros = (if digit_val (ds ! 12) \<noteq> spec_cnpj_dv1 ds
                           then [''Primeiro d'' @ i_acute @ ''gito verificador do CNPJ inv'' @ a_acute @ ''lido'']
                           else [])
                        @ (if digit_val (ds ! 13) \<noteq> spec_cnpj_dv2 ds
                           then [''Segundo d'' @ i_acute @ ''gito verificador do CNPJ inv'' @ a_acute @ ''lido'']
                           else [])\<rparr>)"
    unfolding validar_cnpj_try_def re_sub_nao_digitos_def Let_def
    using ds len
    by (simp add: i0 concat_replicate_um s1 s2 a12 a13 spec_cnpj_dv1_def spec_cnpj_dv2_def
          spec_dv_mod11_def Let_def)
  then show ?thesis by (simp add: validar_cnpj_def)
qed

lemma spec_cnpj_dv1_update:
  "12 \<le> k \<Longrightarrow> spec_cnpj_dv1 (ds[k := c]) = spec_cnpj_dv1 ds"
  by (simp add: spec_cnpj_dv1_def)

lemma spec_cnpj_dv2_update:
  "13 \<le> k \<Longrightarrow> spec_cnpj_dv2 (ds[k := c]) = spec_cnpj_dv2 ds"
  by (simp add: spec_cnpj_dv2_def)

lemma is_digit_cases:
  assumes "is_digit d"
  shows "d \<in> set ''0123456789''"
proof -
  define n where "n = (of_char d :: nat)"
  have d: "d = char_of n" by (simp add: n_def)
  from assms have "48 \<le> n \<and> n \<le> 57" by (simp add: is_digit_def n_def)
  then have "n = 48 \<or> n = 49 \<or> n = 50 \<or> n = 51 \<or> n = 52 \<or> n = 53 \<or> n = 54 \<or> n = 55
             \<or> n = 56 \<or> n = 57"
    by arith
  moreover have "char_of (48 :: nat) = CHR ''0''" "char_of (49 :: nat) = CHR ''1''"
    "char_of (50 :: nat) = CHR ''2''" "char_of (51 :: nat) = CHR ''3''"
    "char_of (52 :: nat) = CHR ''4''" "char_of (53 :: nat) = CHR ''5''"
    "char_of (54 :: nat) = CHR ''6''" "char_of (55 :: nat) = CHR ''7''"
    "char_of (56 :: nat) = CHR ''8''" "char_of (57 :: nat) = CHR ''9''"
    by code_simp+
  ultimately show ?thesis unfolding d by auto
qed

lemma repetida_dv1:
  assumes "is_digit d"
    and "digit_val d = spec_dv_mod11 [5, 4, 3, 2, 9, 8, 7, 6, 5, 4, 3, 2] (replicate 12 d)"
  shows "d = CHR ''0''"
proof -
  have "\<forall>x \<in> set ''0123456789''.
          digit_val x = spec_dv_mod11 [5, 4, 3, 2, 9, 8, 7, 6, 5, 4, 3, 2] (replicate 12 x)
          \<longrightarrow> x = CHR ''0''"
    by code_simp
  with is_digit_cases [OF assms(1)] assms(2) show ?thesis by blast
qed

lemma repetida_dv2:
  assumes "is_digit d" and "is_digit x"
    and "digit_val x = spec_dv_mod11 [5, 4, 3, 2, 9, 8, 7, 6, 5, 4, 3, 2] (replicate 12 d)"
    and "digit_val d = spec_dv_mod11 [6, 5, 4, 3, 2, 9, 8, 7, 6, 5, 4, 3, 2] (replicate 12 d @ [x])"
  shows "x = d"
proof -
  have "\<forall>a \<in> set ''0123456789''. \<forall>b \<in> set ''0123456789''.
          digit_val b = spec_dv_mod11 [5, 4, 3, 2, 9, 8, 7, 6, 5, 4, 3, 2] (replicate 12 a)
          \<longrightarrow> digit_val a = spec_dv_mod11 [6, 5, 4, 3, 2, 9, 8, 7, 6, 5, 4, 3, 2] (replicate 12 a @ [b])
          \<longrightarrow> b = a"
    by code_simp
  with is_digit_cases [OF assms(1)] is_digit_cases [OF assms(2)] assms(3,4) show ?thesis by blast
qed

lemma troca_nth:
  assumes "ds[k := c] = replicate 14 d" and "length ds = 14" and "i < 14" and "i \<noteq> k"
  shows "ds ! i = d"
proof -
  have "ds ! i = ds[k := c] ! i" using assms(4) by simp
  also have "\<dots> = d" using assms(1,3) by simp
  finally show ?thesis .
qed

lemma take_repetida:
  assumes "\<forall>i < n. ds ! i = d" and "n \<le> length ds"
  shows "take n ds = replicate n d"
  using assms by (intro nth_equalityI) simp_all

lemma troca13_nao_repetida:
  assumes dig: "list_all is_digit ds" and len: "length ds = 14"
    and nr: "ds \<noteq> replicate 14 (ds ! 0)"
    and v1: "digit_val (ds ! 12) = spec_cnpj_dv1 ds"
    and v2: "digit_val (ds ! 13) = spec_cnpj_dv2 ds"
  shows "ds[13 := c] \<noteq> replicate 14 (ds ! 0)"
proof
  assume eq: "ds[13 := c] = replicate 14 (ds ! 0)"
  define d where "d = ds ! 0"
  have n: "ds ! i = d" if "i < 13" for i
    unfolding d_def by (rule troca_nth [OF eq len]) (use that in simp_all)
  have t13: "take 13 ds = replicate 13 d" using n len by (intro take_repetida) simp_all
  have t12: "take 12 ds = replicate 12 d" using n len by (intro take_repetida) simp_all
  have dd: "is_digit d" using dig len by (simp add: d_def list_all_length)
  have d13: "is_digit (ds ! 13)" using dig len by (simp add: list_all_length)
  have "ds ! 12 = d" by (rule n) simp
  with v1 t12 have "digit_val d = spec_dv_mod11 [5, 4, 3, 2, 9, 8, 7, 6, 5, 4, 3, 2] (replicate 12 d)"
    by (simp add: spec_cnpj_dv1_def)
  from repetida_dv1 [OF dd this] have z: "d = CHR ''0''" .
  have k: "spec_dv_mod11 [6, 5, 4, 3, 2, 9, 8, 7, 6, 5, 4, 3, 2] (replicate 13 CHR ''0'') = digit_val CHR ''0''"
    by code_simp
  from v2 have "digit_val (ds ! 13) = spec_dv_mod11 [6, 5, 4, 3, 2, 9, 8, 7, 6, 5, 4, 3, 2] (take 13 ds)"
    by (simp only: spec_cnpj_dv2_def)
  then have "digit_val (ds ! 13) = digit_val d" unfolding t13 z k .
  from digit_val_inj [OF d13 dd this] have e13: "ds ! 13 = d" .
  have "ds ! i = d" if "i < 14" for i
  proof (cases "i = 13")
    case True
    then show ?thesis using e13 by simp
  next
    case False
    with that have "i < 13" by arith
    then show ?thesis by (rule n)
  qed
  then have "take 14 ds = replicate 14 d" using len by (intro take_repetida) simp_all
  with len have "ds = replicate 14 (ds ! 0)" by (simp add: d_def)
  with nr show False by simp
qed

lemma troca12_nao_repetida:
  assumes dig: "list_all is_digit ds" and len: "length ds = 14"
    and v1: "digit_val (ds ! 12) = spec_cnpj_dv1 ds"
    and v2: "digit_val (ds ! 13) = spec_cnpj_dv2 ds"
    and c: "c \<noteq> ds ! 12"
  shows "ds[12 := c] \<noteq> replicate 14 (ds ! 0)"
proof
  assume eq: "ds[12 := c] = replicate 14 (ds ! 0)"
  define d where "d = ds ! 0"
  have n: "ds ! i = d" if "i < 12" for i
    unfolding d_def by (rule troca_nth [OF eq len]) (use that in simp_all)
  have t12: "take 12 ds = replicate 12 d" using n len by (intro take_repetida) simp_all
  have "take (Suc 12) ds = take 12 ds @ [ds ! 12]"
    using len by (intro take_Suc_conv_app_nth) simp
  with t12 have t13: "take 13 ds = replicate 12 d @ [ds ! 12]" by simp
  have dd: "is_digit d" using dig len by (simp add: d_def list_all_length)
  have d12: "is_digit (ds ! 12)" using dig len by (simp add: list_all_length)
  have e13: "ds ! 13 = d" unfolding d_def by (rule troca_nth [OF eq len]) simp_all
  from v2 have "digit_val (ds ! 13) = spec_dv_mod11 [6, 5, 4, 3, 2, 9, 8, 7, 6, 5, 4, 3, 2] (take 13 ds)"
    by (simp only: spec_cnpj_dv2_def)
  then have a: "digit_val d
      = spec_dv_mod11 [6, 5, 4, 3, 2, 9, 8, 7, 6, 5, 4, 3, 2] (replicate 12 d @ [ds ! 12])"
    unfolding t13 e13 .
  from v1 have "digit_val (ds ! 12) = spec_dv_mod11 [5, 4, 3, 2, 9, 8, 7, 6, 5, 4, 3, 2] (take 12 ds)"
    by (simp only: spec_cnpj_dv1_def)
  then have b: "digit_val (ds ! 12)
      = spec_dv_mod11 [5, 4, 3, 2, 9, 8, 7, 6, 5, 4, 3, 2] (replicate 12 d)"
    unfolding t12 .
  from repetida_dv2 [OF dd d12 b a] have x: "ds ! 12 = d" .
  have "ds[12 := c] ! 12 = replicate 14 (ds ! 0) ! 12" by (simp only: eq)
  then have "c = d" using len by (simp add: d_def)
  with x c show False by simp
qed

text \<open>
  Claim C4, as the code has it. A CNPJ of fourteen equal digits is rejected. One that is
  not, and whose digits 12 and 13 are the two check digits of the specification,
  validates with no error; with its second check digit replaced by another digit it has
  exactly one error, that of the second digit; with its first check digit replaced it
  has the error of the first digit, and after it the error of the second digit whenever
  the second check digit computed over the altered thirteen digits is no longer digit 13.
\<close>

theorem cnpj_digitos_verificadores:
  assumes "filter is_digit cnpj = ds" and "length ds = 14"
  shows "(ds = replicate 14 (ds ! 0) \<longrightarrow>
            validar_cnpj rt (PStr cnpj) =
              \<lparr>valido = False,
               erros = [''CNPJ inv'' @ a_acute @ ''lido (sequ'' @ e_circ @ ''ncia repetida)'']\<rparr>)
       \<and> (ds \<noteq> replicate 14 (ds ! 0) \<and> digit_val (ds ! 12) = spec_cnpj_dv1 ds
            \<and> digit_val (ds ! 13) = spec_cnpj_dv2 ds \<longrightarrow>
            validar_cnpj rt (PStr cnpj) = \<lparr>valido = True, erros = []\<rparr>
          \<and> (\<forall>c alterado. is_digit c \<and> c \<noteq> ds ! 13 \<and> filter is_digit alterado = ds[13 := c] \<longrightarrow>
                validar_cnpj rt (PStr alterado) =
                  \<lparr>valido = False,
                   erros = [''Segundo d'' @ i_acute @ ''gito verificador do CNPJ inv'' @ a_acute @ ''lido'']\<rparr>)
          \<and> (\<forall>c alterado. is_digit c \<and> c \<noteq> ds ! 12 \<and> filter is_digit alterado = ds[12 := c] \<longrightarrow>
                validar_cnpj rt (PStr alterado) =
                  \<lparr>valido = False,
                   erros = [''Primeiro d'' @ i_acute @ ''gito verificador do CNPJ inv'' @ a_acute @ ''lido'']
                         @ (if digit_val (ds ! 13) \<noteq> spec_cnpj_dv2 (ds[12 := c])
                            then [''Segundo d'' @ i_acute @ ''gito verificador do CNPJ inv'' @ a_acute @ ''lido'']
                            else [])\<rparr>))"
proof (intro conjI impI allI)
  assume "ds = replicate 14 (ds ! 0)"
  with validar_cnpj_estrutura [OF assms, of rt]
  show "validar_cnpj rt (PStr cnpj) =
              \<lparr>valido = False,
               erros = [''CNPJ inv'' @ a_acute @ ''lido (sequ'' @ e_circ @ ''ncia repetida)'']\<rparr>"
    by simp
next
  assume "ds \<noteq> replicate 14 (ds ! 0) \<and> digit_val (ds ! 12) = spec_cnpj_dv1 ds
            \<and> digit_val (ds ! 13) = spec_cnpj_dv2 ds"
  with validar_cnpj_estrutura [OF assms, of rt]
  show "validar_cnpj rt (PStr cnpj) = \<lparr>valido = True, erros = []\<rparr>"
    by simp
next
  fix c alterado
  assume v: "ds \<noteq> replicate 14 (ds ! 0) \<and> digit_val (ds ! 12) = spec_cnpj_dv1 ds
            \<and> digit_val (ds ! 13) = spec_cnpj_dv2 ds"
    and a: "is_digit c \<and> c \<noteq> ds ! 13 \<and> filter is_digit alterado = ds[13 := c]"
  have dig: "list_all is_digit ds" using assms(1) list_all_filter_is_digit by blast
  have l: "length (ds[13 := c]) = 14" using assms(2) by simp
  have d13: "is_digit (ds ! 13)" using dig assms(2) by (simp add: list_all_length)
  have z: "ds[13 := c] ! 0 = ds ! 0" by simp
  have nr: "ds[13 := c] \<noteq> replicate 14 (ds[13 := c] ! 0)"
    unfolding z using troca13_nao_repetida [OF dig assms(2)] v by blast
  have e12: "digit_val (ds[13 := c] ! 12) = spec_cnpj_dv1 (ds[13 := c])"
    using v by (simp add: spec_cnpj_dv1_update)
  have "digit_val c \<noteq> digit_val (ds ! 13)"
    using digit_val_inj [of c "ds ! 13"] a d13 by blast
  then have e13: "digit_val (ds[13 := c] ! 13) \<noteq> spec_cnpj_dv2 (ds[13 := c])"
    using v assms(2) by (simp add: spec_cnpj_dv2_update)
  from a have f: "filter is_digit alterado = ds[13 := c]" by simp
  show "validar_cnpj rt (PStr alterado) =
                  \<lparr>valido = False,
                   erros = [''Segundo d'' @ i_acute @ ''gito verificador do CNPJ inv'' @ a_acute @ ''lido'']\<rparr>"
    unfolding validar_cnpj_estrutura [OF f l, of rt] using nr e12 e13 by simp
next
  fix c alterado
  assume v: "ds \<noteq> replicate 14 (ds ! 0) \<and> digit_val (ds ! 12) = spec_cnpj_dv1 ds
            \<and> digit_val (ds ! 13) = spec_cnpj_dv2 ds"
    and a: "is_digit c \<and> c \<noteq> ds ! 12 \<and> filter is_digit alterado = ds[12 := c]"
  have dig: "list_all is_digit ds" using assms(1) list_all_filter_is_digit by blast
  have l: "length (ds[12 := c]) = 14" using assms(2) by simp
  have d12: "is_digit (ds ! 12)" using dig assms(2) by (simp add: list_all_length)
  have z: "ds[12 := c] ! 0 = ds ! 0" by simp
  have nr: "ds[12 := c] \<noteq> replicate 14 (ds[12 := c] ! 0)"
    unfolding z using troca12_nao_repetida [OF dig assms(2)] v a by blast
  have "digit_val c \<noteq> digit_val (ds ! 12)"
    using digit_val_inj [of c "ds ! 12"] a d12 by blast
  then have e12: "digit_val (ds[12 := c] ! 12) \<noteq> spec_cnpj_dv1 (ds[12 := c])"
    using v assms(2) by (simp add: spec_cnpj_dv1_update)
  have e13: "ds[12 := c] ! 13 = ds ! 13" by simp
  from a have f: "filter is_digit alterado = ds[12 := c]" by simp
  show "validar_cnpj rt (PStr alterado) =
                  \<lparr>valido = False,
                   erros = [''Primeiro d'' @ i_acute @ ''gito verificador do CNPJ inv'' @ a_acute @ ''lido'']
                         @ (if digit_val (ds ! 13) \<noteq> spec_cnpj_dv2 (ds[12 := c])
                            then [''Segundo d'' @ i_acute @ ''gito verificador do CNPJ inv'' @ a_acute @ ''lido'']
                            else [])\<rparr>"
    unfolding validar_cnpj_estrutura [OF f l, of rt] e13 using nr e12 by simp
qed

theorem cnpj_digitos_verificadores_witness:
  "validar_cnpj rt_teste (PStr ''11.222.333/0001-81'') = \<lparr>valido = True, erros = []\<rparr>
   \<and> validar_cnpj rt_teste (PStr ''11.222.333/0001-80'') =
        \<lparr>valido = False,
         erros = [''Segundo d'' @ i_acute @ ''gito verificador do CNPJ inv'' @ a_acute @ ''lido'']\<rparr>"
proof -
  let ?ds = "''11222333000181''"
  have f: "filter is_digit ''11.222.333/0001-81'' = ?ds" by code_simp
  have l: "length ?ds = 14" by simp
  have v: "?ds \<noteq> replicate 14 (?ds ! 0) \<and> digit_val (?ds ! 12) = spec_cnpj_dv1 ?ds
            \<and> digit_val (?ds ! 13) = spec_cnpj_dv2 ?ds"
    by code_simp
  have a: "is_digit CHR ''0'' \<and> CHR ''0'' \<noteq> ?ds ! 13
            \<and> filter is_digit ''11.222.333/0001-80'' = ?ds[13 := CHR ''0'']"
    by code_simp
  from cnpj_digitos_verificadores [OF f l, of rt_teste] v a show ?thesis by blast
qed

text \<open>
  Claim C4 as stated fails: \<open>11222333000181\<close> is valid, and with its first check digit
  changed from 8 to 9 it has two errors, since the second check digit is computed over
  the first.
\<close>

theorem cnpj_primeiro_dv_counterexample:
  "erros (validar_cnpj rt_teste (PStr ''11222333000181'')) = []
   \<and> erros (validar_cnpj rt_teste (PStr ''11222333000191'')) =
        [''Primeiro d'' @ i_acute @ ''gito verificador do CNPJ inv'' @ a_acute @ ''lido'',
         ''Segundo d'' @ i_acute @ ''gito verificador do CNPJ inv'' @ a_acute @ ''lido'']"
  by code_simp

end
